theory Spec2Isabelle
  imports Main
begin

section \<open>Data model\<close>

text \<open>
  The board of \<^verbatim>\<open>src/StateManager.ts\<close> and its collaborators, embedded as records.
  JavaScript strings are \<^typ>\<open>string\<close>; a character stands for one code unit below 256.
  A settings object is a finite map from a key to a value; a key that is absent reads as
  \<^verbatim>\<open>undefined\<close>, so \<^verbatim>\<open>obj[key] !== undefined\<close> is \<open>obj key \<noteq> None\<close>.
\<close>

text \<open>
  The values a setting holds at its declared type: \<^verbatim>\<open>null\<close>, a boolean, a string or an
  array. An array carries the identity of the array object (\<open>JArr r xs\<close> is the array at
  reference \<open>r\<close> with the elements \<open>xs\<close>, each element named by a string), because
  \<^verbatim>\<open>!==\<close> compares arrays by reference. Number-valued settings are read by none of the
  functions below and are left out.
\<close>

datatype jsval = JNull | JBool bool | JStr string | JArr nat "string list"

type_synonym KanbanSettings = "string \<rightharpoonup> jsval"

record ItemData =
  titleRaw :: string
  title :: string
  titleSearch :: string
  checked :: bool
  checkChar :: string
  forceEditMode :: bool

record Item =
  item_id :: string
  item_data :: ItemData

record LaneData =
  lane_title :: string
  shouldMarkItemsComplete :: bool

record Lane =
  lane_id :: string
  lane_children :: "Item list"
  lane_data :: LaneData

record ErrorReport =
  description :: string
  stack :: "string option"

record BoardData =
  archive :: "Item list"
  done_list :: "Item list"
  delegated :: "Item list"
  recurring :: "Item list"
  proposals :: "Item list"
  waiting :: "Item list"
  settings :: KanbanSettings
  frontmatter :: "string \<rightharpoonup> jsval"
  isSearching :: bool
  errors :: "ErrorReport list"

record Board =
  board_id :: string
  board_children :: "Lane list"
  board_data :: BoardData

text \<open>
  A thrown value of which \<^verbatim>\<open>e.toString()\<close> returns: the text it returns and \<^verbatim>\<open>e.stack\<close>, which
  an \<^verbatim>\<open>Error\<close> object has and a thrown string or number has not.
\<close>

datatype exn = Exn string "string option"

text \<open>
  Anything a \<^verbatim>\<open>catch\<close> can receive: a value as above, or a value on which calling
  \<^verbatim>\<open>e.toString()\<close> is itself a \<^verbatim>\<open>TypeError\<close>: \<^verbatim>\<open>null\<close>, \<^verbatim>\<open>undefined\<close>, or an object without the
  method.
\<close>

datatype thrown = Printable exn | NoToString

datatype listName = Archive | Done | Delegated | Recurring | Proposals | Waiting

text \<open>
  The recorded place of a deleted card. The indices are JavaScript numbers; the model
  takes the integers among them.
\<close>

datatype location = LaneLoc int int | VirtualLoc listName int

text \<open>
  A view (\<^verbatim>\<open>KanbanView\<close>): its cached document text \<^verbatim>\<open>view.data\<close>, and the texts handed to
  \<^verbatim>\<open>view.requestSaveToDisk\<close>, oldest first.
\<close>

record KanbanView =
  view_data :: string
  saveRequests :: "string list"

text \<open>
  The state manager. \<open>globalSettings\<close> is what \<^verbatim>\<open>getGlobalSettings()\<close> returns at the
  moment; \<open>settingsNotifiers\<close> maps a key to the identifiers of its listeners, in
  registration order. Three fields record effects: \<open>published\<close> holds the boards pushed
  to the state receivers (one entry for each fan-out), \<open>notified\<close> the listeners that were
  invoked, \<open>nextRef\<close> the next unused array reference. The manager is modelled from the
  moment a board is installed: \<^verbatim>\<open>state\<close> is declared \<^verbatim>\<open>Board\<close>, and a board always has its
  \<^verbatim>\<open>data.settings\<close> object.
\<close>

record Manager =
  state :: Board
  compiledSettings :: KanbanSettings
  globalSettings :: KanbanSettings
  viewSet :: "KanbanView list"
  settingsNotifiers :: "(string \<times> nat list) list"
  selectedItemId :: "string option"
  isArchiveOpen :: bool
  isDoneOpen :: bool
  isDelegatedOpen :: bool
  isRecurringOpen :: bool
  isProposalsOpen :: bool
  isWaitingOpen :: bool
  previousPaneMode :: "listName option"
  lastDeletedBuffer :: "(Item \<times> location) option"
  published :: "Board list"
  notified :: "nat list"
  nextRef :: nat

section \<open>Selection and pane operations\<close>

text \<open>\<^verbatim>\<open>this.stateReceivers.forEach((receiver) => receiver({ ...this.state }))\<close>\<close>

definition notifyReceivers :: "Manager \<Rightarrow> Manager" where
  "notifyReceivers m = m\<lparr>published := published m @ [state m]\<rparr>"

definition selectItem :: "string option \<Rightarrow> Manager \<Rightarrow> Manager" where
  "selectItem itemId m =
     (let m1 = m\<lparr>selectedItemId := itemId\<rparr>;
          m2 = (if itemId \<noteq> None then m1\<lparr>isArchiveOpen := False\<rparr> else m1)
      in notifyReceivers m2)"

definition toggleArchive :: "Manager \<Rightarrow> Manager" where
  "toggleArchive m =
     (let m1 = m\<lparr>isArchiveOpen := \<not> isArchiveOpen m\<rparr>;
          m2 = (if isArchiveOpen m1
                then m1\<lparr>selectedItemId := None, isDoneOpen := False, isDelegatedOpen := False\<rparr>
                else m1)
      in notifyReceivers m2)"

definition openArchive :: "Manager \<Rightarrow> Manager" where
  "openArchive m = notifyReceivers (m\<lparr>isArchiveOpen := True, selectedItemId := None\<rparr>)"

definition closeArchive :: "Manager \<Rightarrow> Manager" where
  "closeArchive m = notifyReceivers (m\<lparr>isArchiveOpen := False\<rparr>)"

definition toggleDone :: "Manager \<Rightarrow> Manager" where
  "toggleDone m =
     (let m1 = m\<lparr>isDoneOpen := \<not> isDoneOpen m\<rparr>;
          m2 = (if isDoneOpen m1
                then m1\<lparr>selectedItemId := None, isArchiveOpen := False, isDelegatedOpen := False\<rparr>
                else m1)
      in notifyReceivers m2)"

definition openDone :: "Manager \<Rightarrow> Manager" where
  "openDone m =
     notifyReceivers (m\<lparr>isDoneOpen := True, selectedItemId := None, isArchiveOpen := False\<rparr>)"

definition closeDone :: "Manager \<Rightarrow> Manager" where
  "closeDone m = notifyReceivers (m\<lparr>isDoneOpen := False\<rparr>)"

definition toggleDelegated :: "Manager \<Rightarrow> Manager" where
  "toggleDelegated m =
     (let m1 = m\<lparr>isDelegatedOpen := \<not> isDelegatedOpen m\<rparr>;
          m2 = (if isDelegatedOpen m1
                then m1\<lparr>selectedItemId := None, isArchiveOpen := False, isDoneOpen := False\<rparr>
                else m1)
      in notifyReceivers m2)"

definition openDelegated :: "Manager \<Rightarrow> Manager" where
  "openDelegated m =
     notifyReceivers (m\<lparr>isDelegatedOpen := True, selectedItemId := None,
                        isArchiveOpen := False, isDoneOpen := False\<rparr>)"

definition closeDelegated :: "Manager \<Rightarrow> Manager" where
  "closeDelegated m = notifyReceivers (m\<lparr>isDelegatedOpen := False\<rparr>)"

definition toggleRecurring :: "Manager \<Rightarrow> Manager" where
  "toggleRecurring m =
     (let m1 = m\<lparr>isRecurringOpen := \<not> isRecurringOpen m\<rparr>;
          m2 = (if isRecurringOpen m1
                then m1\<lparr>selectedItemId := None, isArchiveOpen := False, isDoneOpen := False,
                        isDelegatedOpen := False, isProposalsOpen := False,
                        isWaitingOpen := False\<rparr>
                else m1)
      in notifyReceivers m2)"

definition openRecurring :: "Manager \<Rightarrow> Manager" where
  "openRecurring m =
     notifyReceivers (m\<lparr>isRecurringOpen := True, selectedItemId := None,
                        isArchiveOpen := False, isDoneOpen := False, isDelegatedOpen := False,
                        isProposalsOpen := False, isWaitingOpen := False\<rparr>)"

definition closeRecurring :: "Manager \<Rightarrow> Manager" where
  "closeRecurring m = notifyReceivers (m\<lparr>isRecurringOpen := False\<rparr>)"

definition toggleProposals :: "Manager \<Rightarrow> Manager" where
  "toggleProposals m =
     (let m1 = m\<lparr>isProposalsOpen := \<not> isProposalsOpen m\<rparr>;
          m2 = (if isProposalsOpen m1
                then m1\<lparr>selectedItemId := None, isArchiveOpen := False, isDoneOpen := False,
                        isDelegatedOpen := False, isRecurringOpen := False,
                        isWaitingOpen := False\<rparr>
                else m1)
      in notifyReceivers m2)"

definition openProposals :: "Manager \<Rightarrow> Manager" where
  "openProposals m =
     notifyReceivers (m\<lparr>isProposalsOpen := True, selectedItemId := None,
                        isArchiveOpen := False, isDoneOpen := False, isDelegatedOpen := False,
                        isRecurringOpen := False, isWaitingOpen := False\<rparr>)"

definition closeProposals :: "Manager \<Rightarrow> Manager" where
  "closeProposals m = notifyReceivers (m\<lparr>isProposalsOpen := False\<rparr>)"

definition toggleWaiting :: "Manager \<Rightarrow> Manager" where
  "toggleWaiting m =
     (let m1 = m\<lparr>isWaitingOpen := \<not> isWaitingOpen m\<rparr>;
          m2 = (if isWaitingOpen m1
                then m1\<lparr>selectedItemId := None, isArchiveOpen := False, isDoneOpen := False,
                        isDelegatedOpen := False, isRecurringOpen := False,
                        isProposalsOpen := False\<rparr>
                else m1)
      in notifyReceivers m2)"

definition openWaiting :: "Manager \<Rightarrow> Manager" where
  "openWaiting m =
     notifyReceivers (m\<lparr>isWaitingOpen := True, selectedItemId := None,
                        isArchiveOpen := False, isDoneOpen := False, isDelegatedOpen := False,
                        isRecurringOpen := False, isProposalsOpen := False\<rparr>)"

definition closeWaiting :: "Manager \<Rightarrow> Manager" where
  "closeWaiting m = notifyReceivers (m\<lparr>isWaitingOpen := False\<rparr>)"

text \<open>A call of one of the selection and pane operations, and a sequence of calls.\<close>

datatype pane_call =
    SelectItem "string option"
  | ToggleArchive | OpenArchive | CloseArchive
  | ToggleDone | OpenDone | CloseDone
  | ToggleDelegated | OpenDelegated | CloseDelegated
  | ToggleRecurring | OpenRecurring | CloseRecurring
  | ToggleProposals | OpenProposals | CloseProposals
  | ToggleWaiting | OpenWaiting | CloseWaiting

fun pane_step :: "pane_call \<Rightarrow> Manager \<Rightarrow> Manager" where
  "pane_step (SelectItem i) m = selectItem i m"
| "pane_step ToggleArchive m = toggleArchive m"
| "pane_step OpenArchive m = openArchive m"
| "pane_step CloseArchive m = closeArchive m"
| "pane_step ToggleDone m = toggleDone m"
| "pane_step OpenDone m = openDone m"
| "pane_step CloseDone m = closeDone m"
| "pane_step ToggleDelegated m = toggleDelegated m"
| "pane_step OpenDelegated m = openDelegated m"
| "pane_step CloseDelegated m = closeDelegated m"
| "pane_step ToggleRecurring m = toggleRecurring m"
| "pane_step OpenRecurring m = openRecurring m"
| "pane_step CloseRecurring m = closeRecurring m"
| "pane_step ToggleProposals m = toggleProposals m"
| "pane_step OpenProposals m = openProposals m"
| "pane_step CloseProposals m = closeProposals m"
| "pane_step ToggleWaiting m = toggleWaiting m"
| "pane_step OpenWaiting m = openWaiting m"
| "pane_step CloseWaiting m = closeWaiting m"

fun pane_run :: "pane_call list \<Rightarrow> Manager \<Rightarrow> Manager" where
  "pane_run [] m = m"
| "pane_run (c # cs) m = pane_run cs (pane_step c m)"

text \<open>The field initialisers of the class: nothing selected, every pane closed.\<close>

definition panes_initial :: "Manager \<Rightarrow> bool" where
  "panes_initial m \<longleftrightarrow>
     selectedItemId m = None \<and> \<not> isArchiveOpen m \<and> \<not> isDoneOpen m \<and> \<not> isDelegatedOpen m \<and>
     \<not> isRecurringOpen m \<and> \<not> isProposalsOpen m \<and> \<not> isWaitingOpen m"

section \<open>Settings\<close>

text \<open>
  What the state manager reads from files that are not part of the sources at hand: the
  constants \<^verbatim>\<open>frontmatterKey\<close>, \<^verbatim>\<open>defaultDateTrigger\<close>, \<^verbatim>\<open>defaultTimeTrigger\<close> and
  \<^verbatim>\<open>defaultMetadataPosition\<close>, the host defaults \<^verbatim>\<open>getDefaultDateFormat(app)\<close> and
  \<^verbatim>\<open>getDefaultTimeFormat(app)\<close>, \<^verbatim>\<open>getTaskStatusDone()\<close>, the predicate
  \<^verbatim>\<open>shouldRefreshBoard\<close>, and \<^verbatim>\<open>moment().format(f)\<close> at the moment of the call. They are
  parameters of the model, and so is the \<^verbatim>\<open>TypeError\<close> that the engine throws for
  \<^verbatim>\<open>e.toString()\<close> on \<^verbatim>\<open>null\<close>, \<^verbatim>\<open>undefined\<close> or an object without the method.
\<close>

record Host =
  frontmatterKey :: string
  defaultDateFormat :: string
  defaultTimeFormat :: string
  defaultDateTrigger :: string
  defaultTimeTrigger :: string
  defaultMetadataPosition :: string
  taskStatusDone :: string
  shouldRefreshBoard :: "KanbanSettings \<Rightarrow> KanbanSettings \<Rightarrow> bool"
  momentFormat :: "jsval \<Rightarrow> string"
  toStringTypeError :: exn

text \<open>
  The parser (\<^verbatim>\<open>BaseFormat\<close>, implemented by \<^verbatim>\<open>ListFormat\<close>) is not part of the sources at
  hand either. Its methods are parameters; each may read the manager it was built with,
  and each may throw. What the parser throws is taken to be a value of which
  \<^verbatim>\<open>e.toString()\<close> returns, such as an \<^verbatim>\<open>Error\<close> object.
\<close>

record BaseFormat =
  boardToMd :: "Manager \<Rightarrow> Board \<Rightarrow> exn + string"
  reparseBoard :: "Manager \<Rightarrow> exn + Board"
  updateItemContent :: "Manager \<Rightarrow> Item \<Rightarrow> string \<Rightarrow> exn + Item"

text \<open>JavaScript truthiness, \<^verbatim>\<open>a || b\<close>, \<^verbatim>\<open>a ?? b\<close> and string conversion.\<close>

fun truthy :: "jsval \<Rightarrow> bool" where
  "truthy JNull = False"
| "truthy (JBool b) = b"
| "truthy (JStr s) = (s \<noteq> [])"
| "truthy (JArr r xs) = True"

definition js_or :: "jsval \<Rightarrow> jsval \<Rightarrow> jsval" where
  "js_or a b = (if truthy a then a else b)"

definition js_nullish :: "jsval \<Rightarrow> jsval \<Rightarrow> jsval" where
  "js_nullish a b = (if a = JNull then b else a)"

fun js_join :: "string \<Rightarrow> string list \<Rightarrow> string" where
  "js_join sep [] = []"
| "js_join sep [x] = x"
| "js_join sep (x # y # ys) = x @ sep @ js_join sep (y # ys)"

fun toString :: "jsval \<Rightarrow> string" where
  "toString JNull = ''null''"
| "toString (JBool b) = (if b then ''true'' else ''false'')"
| "toString (JStr s) = s"
| "toString (JArr r xs) = js_join '','' xs"

text \<open>
  \<^verbatim>\<open>[...(v || [])]\<close>: the elements of an array, the characters of a string, nothing for a
  falsy value. \<^verbatim>\<open>metadata-keys\<close> is declared an array; spreading \<^verbatim>\<open>true\<close> throws in
  JavaScript and lies outside the declared type, the model gives no elements there.
\<close>

fun spread_or_empty :: "jsval \<Rightarrow> string list" where
  "spread_or_empty (JArr r xs) = xs"
| "spread_or_empty (JStr s) = map (\<lambda>c. [c]) s"
| "spread_or_empty v = []"

text \<open>\<^verbatim>\<open>Array.from(new Set(xs))\<close>: the first occurrence of each element, in order.\<close>

fun dedup :: "'a list \<Rightarrow> 'a list" where
  "dedup [] = []"
| "dedup (x # xs) = x # dedup (filter (\<lambda>y. y \<noteq> x) xs)"

definition getGlobalSetting :: "string \<Rightarrow> Manager \<Rightarrow> jsval" where
  "getGlobalSetting key m = (case globalSettings m key of Some v \<Rightarrow> v | None \<Rightarrow> JNull)"

text \<open>\<^verbatim>\<open>suppliedLocalSettings?.[key]\<close>, the optional argument being \<open>None\<close> when omitted.\<close>

definition supplied_get :: "KanbanSettings option \<Rightarrow> string \<Rightarrow> jsval option" where
  "supplied_get supplied key = (case supplied of None \<Rightarrow> None | Some s \<Rightarrow> s key)"

definition getSettingRaw :: "string \<Rightarrow> KanbanSettings option \<Rightarrow> Manager \<Rightarrow> jsval" where
  "getSettingRaw key supplied m =
     (case supplied_get supplied key of
        Some v \<Rightarrow> v
      | None \<Rightarrow>
          (case settings (board_data (state m)) key of
             Some v \<Rightarrow> v
           | None \<Rightarrow> getGlobalSetting key m))"


text \<open>
  \<^verbatim>\<open>compileSettings\<close>. The object literal is the chain of map updates, in the order of the
  source; the array built for \<^verbatim>\<open>metadata-keys\<close> and the three \<^verbatim>\<open>[]\<close> defaults are new
  arrays, at the next four unused references.
\<close>

definition compileSettings :: "Host \<Rightarrow> KanbanSettings option \<Rightarrow> Manager \<Rightarrow> Manager" where
  "compileSettings h supplied m =
     (let globalKeys = spread_or_empty (getGlobalSetting ''metadata-keys'' m);
          localKeys = spread_or_empty (getSettingRaw ''metadata-keys'' supplied m);
          metadataKeys = JArr (nextRef m) (dedup (globalKeys @ localKeys));
          dateFormat = js_or (getSettingRaw ''date-format'' supplied m) (JStr (defaultDateFormat h));
          dateDisplayFormat = js_or (getSettingRaw ''date-display-format'' supplied m) dateFormat;
          timeFormat = js_or (getSettingRaw ''time-format'' supplied m) (JStr (defaultTimeFormat h));
          archiveDateFormat =
            js_or (getSettingRaw ''archive-date-format'' supplied m)
                  (JStr (toString dateFormat @ '' '' @ toString timeFormat))
      in m\<lparr>compiledSettings :=
             [frontmatterKey h \<mapsto> js_or (getSettingRaw (frontmatterKey h) supplied m) (JStr ''board''),
              ''date-format'' \<mapsto> dateFormat,
              ''date-display-format'' \<mapsto> dateDisplayFormat,
              ''date-time-display-format'' \<mapsto>
                 JStr (toString dateDisplayFormat @ '' '' @ toString timeFormat),
              ''date-trigger'' \<mapsto>
                 js_or (getSettingRaw ''date-trigger'' supplied m) (JStr (defaultDateTrigger h)),
              ''inline-metadata-position'' \<mapsto>
                 js_or (getSettingRaw ''inline-metadata-position'' supplied m)
                       (JStr (defaultMetadataPosition h)),
              ''time-format'' \<mapsto> timeFormat,
              ''time-trigger'' \<mapsto>
                 js_or (getSettingRaw ''time-trigger'' supplied m) (JStr (defaultTimeTrigger h)),
              ''link-date-to-daily-note'' \<mapsto> getSettingRaw ''link-date-to-daily-note'' supplied m,
              ''move-dates'' \<mapsto> getSettingRaw ''move-dates'' supplied m,
              ''move-tags'' \<mapsto> getSettingRaw ''move-tags'' supplied m,
              ''move-task-metadata'' \<mapsto> getSettingRaw ''move-task-metadata'' supplied m,
              ''metadata-keys'' \<mapsto> metadataKeys,
              ''archive-date-separator'' \<mapsto>
                 js_or (getSettingRaw ''archive-date-separator'' None m) (JStr []),
              ''archive-date-format'' \<mapsto> archiveDateFormat,
              ''show-add-list'' \<mapsto>
                 js_nullish (getSettingRaw ''show-add-list'' supplied m) (JBool True),
              ''show-archive-all'' \<mapsto>
                 js_nullish (getSettingRaw ''show-archive-all'' supplied m) (JBool True),
              ''show-view-as-markdown'' \<mapsto>
                 js_nullish (getSettingRaw ''show-view-as-markdown'' supplied m) (JBool True),
              ''show-board-settings'' \<mapsto>
                 js_nullish (getSettingRaw ''show-board-settings'' supplied m) (JBool True),
              ''show-search'' \<mapsto> js_nullish (getSettingRaw ''show-search'' supplied m) (JBool True),
              ''show-set-view'' \<mapsto>
                 js_nullish (getSettingRaw ''show-set-view'' supplied m) (JBool True),
              ''tag-colors'' \<mapsto>
                 js_nullish (getSettingRaw ''tag-colors'' supplied m) (JArr (nextRef m + 1) []),
              ''tag-sort'' \<mapsto>
                 js_nullish (getSettingRaw ''tag-sort'' supplied m) (JArr (nextRef m + 2) []),
              ''date-colors'' \<mapsto>
                 js_nullish (getSettingRaw ''date-colors'' supplied m) (JArr (nextRef m + 3) []),
              ''tag-action'' \<mapsto>
                 js_nullish (getSettingRaw ''tag-action'' supplied m) (JStr ''obsidian'')],
           nextRef := nextRef m + 4\<rparr>)"

section \<open>State transitions\<close>

text \<open>
  \<^verbatim>\<open>saveToDisk\<close>. The first view of the set receives the text through
  \<^verbatim>\<open>requestSaveToDisk\<close>, then every view caches it. The result is \<open>Inl e\<close> when the
  serializer throws \<open>e\<close>, which happens before any view is touched.
\<close>

definition saveToDisk :: "BaseFormat \<Rightarrow> Manager \<Rightarrow> exn + Manager" where
  "saveToDisk p m =
     (if length (errors (board_data (state m))) > 0 then Inr m
      else
        (case viewSet m of
           [] \<Rightarrow> Inr m
         | view # views \<Rightarrow>
             (case boardToMd p m (state m) of
                Inl e \<Rightarrow> Inl e
              | Inr fileStr \<Rightarrow>
                  Inr (m\<lparr>viewSet :=
                          map (\<lambda>v. v\<lparr>view_data := fileStr\<rparr>)
                              (view\<lparr>saveRequests := saveRequests view @ [fileStr]\<rparr> # views)\<rparr>))))"

text \<open>\<^verbatim>\<open>update(b, { data: { errors: { $push: [{ description: e.toString(), stack: e.stack }] } } })\<close>\<close>

fun pushError :: "exn \<Rightarrow> Board \<Rightarrow> Board" where
  "pushError (Exn d s) b =
     b\<lparr>board_data := (board_data b)\<lparr>errors := errors (board_data b) @
                                          [\<lparr>description = d, stack = s\<rparr>]\<rparr>\<rparr>"

text \<open>
  The first argument of \<^verbatim>\<open>setState\<close>: a board, or a function from the current board that
  returns a board or throws; a function of the caller may throw any value.
\<close>

datatype next_state = Value Board | Transform "Board \<Rightarrow> thrown + Board"

text \<open>
  The listeners of every key whose value differs, by \<^verbatim>\<open>!==\<close>, between the old and the new
  settings object of the board. The old settings object exists, so the test of a key is
  \<^verbatim>\<open>oldSettings[key] !== newSettings[key]\<close>. Equality of \<^typ>\<open>jsval\<close> is \<^verbatim>\<open>===\<close>: by value on
  strings, booleans and \<^verbatim>\<open>null\<close>, by reference on arrays. Two settings objects that are the
  same object are equal maps, and for equal maps no key differs.
\<close>

definition notifySettings :: "KanbanSettings \<Rightarrow> KanbanSettings \<Rightarrow> Manager \<Rightarrow> Manager" where
  "notifySettings oldSettings newSettings m =
     (if oldSettings \<noteq> newSettings
      then m\<lparr>notified := notified m @
                concat (map snd (filter (\<lambda>(key, notifiers). oldSettings key \<noteq> newSettings key)
                                        (settingsNotifiers m)))\<rparr>
      else m)"

text \<open>\<^verbatim>\<open>this.settingsNotifiers.forEach((notifiers) => notifiers.forEach((fn) => fn()))\<close>\<close>

definition notifyAllSettings :: "Manager \<Rightarrow> Manager" where
  "notifyAllSettings m = m\<lparr>notified := notified m @ concat (map snd (settingsNotifiers m))\<rparr>"

text \<open>
  The body of the \<^verbatim>\<open>try\<close> block of \<^verbatim>\<open>setState\<close>: \<open>Inl (e, m')\<close> when \<open>e\<close> is thrown with the
  manager in the state \<open>m'\<close>, \<open>Inr m'\<close> when the block completes. Both settings objects
  exist, so the guard of the first branch is \<^verbatim>\<open>shouldRefreshBoard\<close> alone. The calls
  \<^verbatim>\<open>view.initHeaderButtons()\<close> and \<^verbatim>\<open>view.validatePreviewCache(newState)\<close> change nothing that
  the model records.
\<close>

definition setState_try ::
  "BaseFormat \<Rightarrow> Host \<Rightarrow> next_state \<Rightarrow> bool \<Rightarrow> Manager \<Rightarrow> (thrown \<times> Manager) + Manager" where
  "setState_try p h st shouldSave m =
     (let oldSettings = settings (board_data (state m)) in
      case (case st of Value b \<Rightarrow> Inr b | Transform f \<Rightarrow> f (state m)) of
        Inl e \<Rightarrow> Inl (e, m)
      | Inr newState \<Rightarrow>
          (let newSettings = settings (board_data newState) in
           case (if shouldRefreshBoard h oldSettings newSettings
                 then (let m1 = compileSettings h None
                                  (m\<lparr>state := (state m)\<lparr>board_data :=
                                        (board_data (state m))\<lparr>settings := newSettings\<rparr>\<rparr>\<rparr>)
                       in case reparseBoard p m1 of
                            Inl e \<Rightarrow> Inl (Printable e, m1)
                          | Inr b \<Rightarrow> Inr (m1\<lparr>state := b\<rparr>))
                 else Inr (compileSettings h None (m\<lparr>state := newState\<rparr>))) of
             Inl x \<Rightarrow> Inl x
           | Inr m2 \<Rightarrow>
               (case (if shouldSave
                      then (case saveToDisk p m2 of
                              Inl e \<Rightarrow> Inl (Printable e, m2)
                            | Inr m3 \<Rightarrow> Inr m3)
                      else Inr m2) of
                  Inl x \<Rightarrow> Inl x
                | Inr m3 \<Rightarrow>
                    Inr (notifySettings oldSettings newSettings
                           (m3\<lparr>published := published m3 @ [state m3]\<rparr>)))))"

text \<open>
  How a call ends: \<open>Inr m'\<close> when it returns with the manager in the state \<open>m'\<close>,
  \<open>Inl (e, m')\<close> when \<open>e\<close> leaves the call, thrown to the caller.
\<close>

type_synonym outcome = "(exn \<times> Manager) + Manager"

text \<open>
  \<^verbatim>\<open>setState\<close> and \<^verbatim>\<open>setError\<close> call each other: the \<^verbatim>\<open>catch\<close> of \<^verbatim>\<open>setState\<close> calls
  \<^verbatim>\<open>setError\<close>, which calls \<^verbatim>\<open>setState\<close> with the board extended by the error. The first
  argument bounds the depth of these calls; \<open>None\<close> means the bound was reached.
  \<^verbatim>\<open>setError\<close> evaluates \<^verbatim>\<open>e.toString()\<close> while it builds the argument of \<^verbatim>\<open>setState\<close>; on a
  value without the method this throws, inside the \<^verbatim>\<open>catch\<close> block, and nothing catches it.
\<close>

fun setState ::
  "nat \<Rightarrow> BaseFormat \<Rightarrow> Host \<Rightarrow> next_state \<Rightarrow> bool \<Rightarrow> Manager \<Rightarrow> outcome option"
and setError :: "nat \<Rightarrow> BaseFormat \<Rightarrow> Host \<Rightarrow> thrown \<Rightarrow> Manager \<Rightarrow> outcome option" where
  "setState 0 p h st shouldSave m = None"
| "setState (Suc n) p h st shouldSave m =
     (case setState_try p h st shouldSave m of
        Inr m' \<Rightarrow> Some (Inr m')
      | Inl (e, m') \<Rightarrow> setError n p h e m')"
| "setError n p h NoToString m = Some (Inl (toStringTypeError h, m))"
| "setError n p h (Printable e) m = setState n p h (Value (pushError e (state m))) False m"

text \<open>\<^verbatim>\<open>forceRefresh\<close>; \<^verbatim>\<open>this.state\<close> is a board, so the guard holds.\<close>

definition forceRefresh_try :: "BaseFormat \<Rightarrow> Host \<Rightarrow> Manager \<Rightarrow> (exn \<times> Manager) + Manager" where
  "forceRefresh_try p h m =
     (let m1 = compileSettings h None m in
      case reparseBoard p m1 of
        Inl e \<Rightarrow> Inl (e, m1)
      | Inr b \<Rightarrow>
          (let m2 = m1\<lparr>state := b\<rparr>
           in Inr (notifyAllSettings (m2\<lparr>published := published m2 @ [state m2]\<rparr>))))"

definition forceRefresh :: "nat \<Rightarrow> BaseFormat \<Rightarrow> Host \<Rightarrow> Manager \<Rightarrow> outcome option" where
  "forceRefresh n p h m =
     (case forceRefresh_try p h m of
        Inr m' \<Rightarrow> Some (Inr m')
      | Inl (e, m') \<Rightarrow> setError n p h (Printable e) m')"

section \<open>Archiving completed cards\<close>







section \<open>Undo buffer\<close>

definition saveDeletedItem :: "Item \<Rightarrow> location \<Rightarrow> Manager \<Rightarrow> Manager" where
  "saveDeletedItem item loc m = m\<lparr>lastDeletedBuffer := Some (item, loc)\<rparr>"

text \<open>\<^verbatim>\<open>xs[i]\<close> for an integer \<open>i\<close>: \<^verbatim>\<open>undefined\<close> outside the array.\<close>

definition js_index :: "'a list \<Rightarrow> int \<Rightarrow> 'a option" where
  "js_index xs i = (if 0 \<le> i \<and> i < int (length xs) then Some (xs ! nat i) else None)"

text \<open>
  \<^verbatim>\<open>xs.splice(start, 0, x)\<close> on a copy: a negative start counts from the end, and the start
  is clamped to the array.
\<close>

definition js_splice_insert :: "'a list \<Rightarrow> int \<Rightarrow> 'a \<Rightarrow> 'a list" where
  "js_splice_insert xs start x =
     (let len = int (length xs);
          k = nat (if start < 0 then max (len + start) 0 else min start len)
      in take k xs @ [x] @ drop k xs)"

fun getList :: "listName \<Rightarrow> BoardData \<Rightarrow> Item list" where
  "getList Archive d = archive d"
| "getList Done d = done_list d"
| "getList Delegated d = delegated d"
| "getList Recurring d = recurring d"
| "getList Proposals d = proposals d"
| "getList Waiting d = waiting d"

fun setList :: "listName \<Rightarrow> Item list \<Rightarrow> BoardData \<Rightarrow> BoardData" where
  "setList Archive xs d = d\<lparr>archive := xs\<rparr>"
| "setList Done xs d = d\<lparr>done_list := xs\<rparr>"
| "setList Delegated xs d = d\<lparr>delegated := xs\<rparr>"
| "setList Recurring xs d = d\<lparr>recurring := xs\<rparr>"
| "setList Proposals xs d = d\<lparr>proposals := xs\<rparr>"
| "setList Waiting xs d = d\<lparr>waiting := xs\<rparr>"

text \<open>The function that \<^verbatim>\<open>restoreLastDeleted\<close> hands to \<^verbatim>\<open>setState\<close>.\<close>

fun restoreTransform :: "Item \<Rightarrow> location \<Rightarrow> Board \<Rightarrow> thrown + Board" where
  "restoreTransform item (LaneLoc laneIndex itemIndex) board =
     (case js_index (board_children board) laneIndex of
        None \<Rightarrow> Inr board
      | Some lane \<Rightarrow>
          Inr (board\<lparr>board_children :=
                 (board_children board)[nat laneIndex :=
                    lane\<lparr>lane_children :=
                           js_splice_insert (lane_children lane) itemIndex item\<rparr>]\<rparr>))"
| "restoreTransform item (VirtualLoc name itemIndex) board =
     Inr (board\<lparr>board_data :=
            setList name (js_splice_insert (getList name (board_data board)) itemIndex item)
                    (board_data board)\<rparr>)"

text \<open>
  \<^verbatim>\<open>restoreLastDeleted\<close>. The buffer is cleared by the statement after the call of
  \<^verbatim>\<open>setState\<close>, which is reached when that call returns.
\<close>

definition restoreLastDeleted :: "nat \<Rightarrow> BaseFormat \<Rightarrow> Host \<Rightarrow> Manager \<Rightarrow> outcome option" where
  "restoreLastDeleted n p h m =
     (case lastDeletedBuffer m of
        None \<Rightarrow> Some (Inr m)
      | Some (item, loc) \<Rightarrow>
          (case setState n p h (Transform (restoreTransform item loc)) True m of
             None \<Rightarrow> None
           | Some (Inl x) \<Rightarrow> Some (Inl x)
           | Some (Inr m') \<Rightarrow> Some (Inr (m'\<lparr>lastDeletedBuffer := None\<rparr>))))"

section \<open>The priority inline field\<close>

text \<open>
  The helpers of \<^verbatim>\<open>components/SidePane/DetailContent.tsx\<close> (repeated in
  \<^verbatim>\<open>components/DetailPane/DetailPane.tsx\<close>) and the menu entry of
  \<^verbatim>\<open>components/Item/ItemMenu.ts\<close>. The regular expressions are
  \<^verbatim>\<open>/\[priority::(standard|high|low)\]/gi\<close> and \<^verbatim>\<open>/\[priority::(high|low)\]/i\<close>: a literal
  token, matched without regard to case.
\<close>

text \<open>
  Case folding of the \<^verbatim>\<open>i\<close> flag on code units below 256: a lower-case letter goes to its
  upper-case letter; \<^verbatim>\<open>toLowerCase\<close> goes the other way.
\<close>

definition canonicalize :: "char \<Rightarrow> char" where
  "canonicalize c =
     (let n = (of_char c :: nat)
      in if (97 \<le> n \<and> n \<le> 122) \<or> (224 \<le> n \<and> n \<le> 254 \<and> n \<noteq> 247)
         then char_of (n - 32) else c)"

definition toLowerCase :: "char \<Rightarrow> char" where
  "toLowerCase c =
     (let n = (of_char c :: nat)
      in if (65 \<le> n \<and> n \<le> 90) \<or> (192 \<le> n \<and> n \<le> 222 \<and> n \<noteq> 215)
         then char_of (n + 32) else c)"

text \<open>Whether the literal \<open>pat\<close> matches at the start of \<open>s\<close>, ignoring case.\<close>

fun ci_prefix :: "string \<Rightarrow> string \<Rightarrow> bool" where
  "ci_prefix [] s = True"
| "ci_prefix (p # ps) [] = False"
| "ci_prefix (p # ps) (c # cs) = (canonicalize p = canonicalize c \<and> ci_prefix ps cs)"

definition priority_token :: "string \<Rightarrow> string" where
  "priority_token v = ''[priority::'' @ v @ '']''"

text \<open>
  \<^verbatim>\<open>/\[priority::(a1|a2|...)\]/i\<close> tried at the start of \<open>s\<close>: the alternatives in order, the
  result is the text captured by the group.
\<close>

fun match_alt :: "string list \<Rightarrow> string \<Rightarrow> string option" where
  "match_alt [] s = None"
| "match_alt (a # as) s =
     (if ci_prefix (priority_token a) s then Some (take (length a) (drop 11 s))
      else match_alt as s)"

text \<open>\<^verbatim>\<open>s.replace(re, '')\<close> for the global expression: one pass from left to right.\<close>

fun remove_tokens :: "string list \<Rightarrow> string \<Rightarrow> string" where
  "remove_tokens alts [] = []"
| "remove_tokens alts (c # cs) =
     (case match_alt alts (c # cs) of
        Some cap \<Rightarrow> remove_tokens alts (drop (11 + length cap) cs)
      | None \<Rightarrow> c # remove_tokens alts cs)"

text \<open>The number of matches of the global expression in \<open>s\<close>.\<close>

fun count_tokens :: "string list \<Rightarrow> string \<Rightarrow> nat" where
  "count_tokens alts [] = 0"
| "count_tokens alts (c # cs) =
     (case match_alt alts (c # cs) of
        Some cap \<Rightarrow> Suc (count_tokens alts (drop (11 + length cap) cs))
      | None \<Rightarrow> count_tokens alts cs)"

text \<open>\<^verbatim>\<open>s.match(re)\<close> without the \<^verbatim>\<open>g\<close> flag: the group of the leftmost match.\<close>

fun regex_search :: "string list \<Rightarrow> string \<Rightarrow> string option" where
  "regex_search alts [] = None"
| "regex_search alts (c # cs) =
     (case match_alt alts (c # cs) of
        Some cap \<Rightarrow> Some cap
      | None \<Rightarrow> regex_search alts cs)"

text \<open>\<^verbatim>\<open>String.prototype.trim\<close>: white space and line terminators below 256.\<close>

definition is_space :: "char \<Rightarrow> bool" where
  "is_space c \<longleftrightarrow> (of_char c :: nat) \<in> {9, 10, 11, 12, 13, 32, 160}"

definition js_trim :: "string \<Rightarrow> string" where
  "js_trim s = rev (dropWhile is_space (rev (dropWhile is_space s)))"

definition PRIORITY_ALTS :: "string list" where
  "PRIORITY_ALTS = [''standard'', ''high'', ''low'']"

definition getPriorityFromTitle :: "string \<Rightarrow> string" where
  "getPriorityFromTitle t =
     (case regex_search [''high'', ''low''] t of
        Some cap \<Rightarrow> map toLowerCase cap
      | None \<Rightarrow> ''standard'')"

definition updatePriorityInTitle :: "string \<Rightarrow> string \<Rightarrow> string" where
  "updatePriorityInTitle t newPriority =
     (let cleaned = js_trim (remove_tokens PRIORITY_ALTS t)
      in if newPriority = ''standard'' then cleaned
         else cleaned @ '' [priority::'' @ newPriority @ '']'')"

text \<open>The raw title that the menu entry \<^emph>\<open>Set high priority / Remove high priority\<close> writes.\<close>

definition menuPriorityTitle :: "string \<Rightarrow> string" where
  "menuPriorityTitle t =
     (let hasPriority = (regex_search [''high''] t \<noteq> None);
          newTitleRaw = js_trim (remove_tokens PRIORITY_ALTS t)
      in if \<not> hasPriority then newTitleRaw @ '' [priority::high]'' else newTitleRaw)"

section \<open>A sample manager\<close>

text \<open>
  Concrete collaborators and a concrete manager, used to run the definitions: a host
  with the constants of the plugin, a parser whose serializer lists the card titles, and
  a manager that holds an empty board and one view.
\<close>

definition sampleHost :: Host where
  "sampleHost =
     \<lparr>frontmatterKey = ''kanban-plugin'', defaultDateFormat = ''YYYY-MM-DD'',
      defaultTimeFormat = ''HH:mm'', defaultDateTrigger = ''@'', defaultTimeTrigger = ''@@'',
      defaultMetadataPosition = ''body'', taskStatusDone = ''x'',
      shouldRefreshBoard =
        (\<lambda>old new. list_ex (\<lambda>k. old k \<noteq> new k)
                      [''date-format'', ''time-format'', ''date-trigger'', ''time-trigger'']),
      momentFormat = (\<lambda>f. ''2024-05-01''),
      toStringTypeError = Exn ''TypeError: e is null'' (Some ''at setError'')\<rparr>"

definition sampleParser :: BaseFormat where
  "sampleParser =
     \<lparr>boardToMd =
        (\<lambda>m b. Inr (concat (map (\<lambda>l. concat (map (\<lambda>i. titleRaw (item_data i) @ '';'')
                                                  (lane_children l)))
                                 (board_children b)))),
      reparseBoard = (\<lambda>m. Inr (state m)),
      updateItemContent =
        (\<lambda>m item content.
           Inr (item\<lparr>item_data := (item_data item)\<lparr>titleRaw := content, title := content,
                                                     titleSearch := content\<rparr>\<rparr>))\<rparr>"

definition emptyBoard :: Board where
  "emptyBoard =
     \<lparr>board_id = ''board.md'', board_children = [],
      board_data = \<lparr>archive = [], done_list = [], delegated = [], recurring = [],
                    proposals = [], waiting = [], settings = Map.empty,
                    frontmatter = Map.empty, isSearching = False, errors = []\<rparr>\<rparr>"

definition sampleManager :: Manager where
  "sampleManager =
     \<lparr>state = emptyBoard, compiledSettings = Map.empty, globalSettings = Map.empty,
      viewSet = [\<lparr>view_data = [], saveRequests = []\<rparr>], settingsNotifiers = [],
      selectedItemId = None, isArchiveOpen = False, isDoneOpen = False,
      isDelegatedOpen = False, isRecurringOpen = False, isProposalsOpen = False,
      isWaitingOpen = False, previousPaneMode = None, lastDeletedBuffer = None,
      published = [], notified = [], nextRef = 0\<rparr>"

definition mkCard :: "string \<Rightarrow> string \<Rightarrow> bool \<Rightarrow> string \<Rightarrow> Item" where
  "mkCard i t c ch =
     \<lparr>item_id = i,
      item_data = \<lparr>titleRaw = t, title = t, titleSearch = t, checked = c, checkChar = ch,
                   forceEditMode = False\<rparr>\<rparr>"

definition mkLane :: "string \<Rightarrow> bool \<Rightarrow> Item list \<Rightarrow> Lane" where
  "mkLane i complete items =
     \<lparr>lane_id = i, lane_children = items,
      lane_data = \<lparr>lane_title = i, shouldMarkItemsComplete = complete\<rparr>\<rparr>"

text \<open>Three unchecked cards, a lane that marks its cards complete, and an ordinary lane.\<close>

definition cardA :: Item where
  "cardA = mkCard ''a'' ''Write report'' False '' ''"

definition cardB :: Item where
  "cardB = mkCard ''b'' ''Call supplier'' False '' ''"

definition cardC :: Item where
  "cardC = mkCard ''c'' ''Book room'' False '' ''"


definition doneListManager :: Manager where
  "doneListManager =
     sampleManager\<lparr>state := emptyBoard\<lparr>board_data :=
        (board_data emptyBoard)\<lparr>done_list := [cardA, cardC]\<rparr>\<rparr>\<rparr>"

text \<open>
  Two functions for \<^verbatim>\<open>setState\<close>: one throws a \<^verbatim>\<open>TypeError\<close> object, one throws \<^verbatim>\<open>null\<close>.
\<close>

definition throwTypeError :: "Board \<Rightarrow> thrown + Board" where
  "throwTypeError b = Inl (Printable (Exn ''TypeError: x is undefined'' (Some ''at transform'')))"

definition throwNull :: "Board \<Rightarrow> thrown + Board" where
  "throwNull b = Inl NoToString"

definition todoLaneManager :: Manager where
  "todoLaneManager =
     sampleManager\<lparr>state := emptyBoard\<lparr>board_children :=
        [mkLane ''Todo'' False [cardA, cardC]]\<rparr>\<rparr>"

text \<open>
  Managers for the settings: a board whose own date format is set above a global one, a
  manager with a global date format only, a board and a global tier that each name a
  metadata key, and a manager with a listener for each of two keys, before and after its
  settings are compiled and after the global date format changed behind its back.
\<close>

definition localDateManager :: Manager where
  "localDateManager =
     sampleManager\<lparr>state := emptyBoard\<lparr>board_data := (board_data emptyBoard)\<lparr>settings :=
                        [''date-format'' \<mapsto> JStr ''YYYY'']\<rparr>\<rparr>,
                    globalSettings := [''date-format'' \<mapsto> JStr ''MM/DD'']\<rparr>"

definition globalDateManager :: Manager where
  "globalDateManager = sampleManager\<lparr>globalSettings := [''date-format'' \<mapsto> JStr ''MM/DD'']\<rparr>"

definition keysManager :: Manager where
  "keysManager =
     sampleManager\<lparr>state := emptyBoard\<lparr>board_data := (board_data emptyBoard)\<lparr>settings :=
                        [''metadata-keys'' \<mapsto> JArr 1 [''due'']]\<rparr>\<rparr>,
                    globalSettings := [''metadata-keys'' \<mapsto> JArr 2 [''owner'']],
                    nextRef := 3\<rparr>"

definition listeningManager :: Manager where
  "listeningManager =
     sampleManager\<lparr>globalSettings := [''date-format'' \<mapsto> JStr ''MM/DD''],
                    settingsNotifiers := [(''date-format'', [7]), (''show-search'', [8])]\<rparr>"

definition searchOffBoard :: Board where
  "searchOffBoard =
     emptyBoard\<lparr>board_data := (board_data emptyBoard)\<lparr>settings :=
        [''show-search'' \<mapsto> JBool False]\<rparr>\<rparr>"

definition compiledManager :: Manager where
  "compiledManager = compileSettings sampleHost None listeningManager"

definition regionChangedManager :: Manager where
  "regionChangedManager = compiledManager\<lparr>globalSettings := [''date-format'' \<mapsto> JStr ''YYYY'']\<rparr>"

section \<open>Notions used in the statements\<close>

text \<open>
  What the pane operations keep true: no card is selected while the archive pane is open,
  and no two of the recurring, proposals and waiting panes are open together.
\<close>

definition pane_inv :: "Manager \<Rightarrow> bool" where
  "pane_inv m \<longleftrightarrow>
     (isArchiveOpen m \<longrightarrow> selectedItemId m = None) \<and>
     \<not> (isRecurringOpen m \<and> isProposalsOpen m) \<and>
     \<not> (isRecurringOpen m \<and> isWaitingOpen m) \<and>
     \<not> (isProposalsOpen m \<and> isWaitingOpen m)"

text \<open>The \<^verbatim>\<open>open<Pane>\<close> operation and the flag of a pane, by the name of its list.\<close>

fun openPane :: "listName \<Rightarrow> Manager \<Rightarrow> Manager" where
  "openPane Archive m = openArchive m"
| "openPane Done m = openDone m"
| "openPane Delegated m = openDelegated m"
| "openPane Recurring m = openRecurring m"
| "openPane Proposals m = openProposals m"
| "openPane Waiting m = openWaiting m"

fun paneOpen :: "listName \<Rightarrow> Manager \<Rightarrow> bool" where
  "paneOpen Archive m = isArchiveOpen m"
| "paneOpen Done m = isDoneOpen m"
| "paneOpen Delegated m = isDelegatedOpen m"
| "paneOpen Recurring m = isRecurringOpen m"
| "paneOpen Proposals m = isProposalsOpen m"
| "paneOpen Waiting m = isWaitingOpen m"

text \<open>A board with further entries at the end of its error list.\<close>

definition with_errors :: "ErrorReport list \<Rightarrow> Board \<Rightarrow> Board" where
  "with_errors es b = b\<lparr>board_data := (board_data b)\<lparr>errors := errors (board_data b) @ es\<rparr>\<rparr>"




text \<open>
  A recorded location that exists in a board, and a list with a card put in at an index:
  the card stands at that index, the cards before and after it keep their order.
\<close>

fun location_in_board :: "location \<Rightarrow> Board \<Rightarrow> bool" where
  "location_in_board (LaneLoc laneIndex itemIndex) b \<longleftrightarrow>
     0 \<le> laneIndex \<and> laneIndex < int (length (board_children b)) \<and> 0 \<le> itemIndex \<and>
     itemIndex \<le> int (length (lane_children (board_children b ! nat laneIndex)))"
| "location_in_board (VirtualLoc name itemIndex) b \<longleftrightarrow>
     0 \<le> itemIndex \<and> itemIndex \<le> int (length (getList name (board_data b)))"

definition insert_at :: "nat \<Rightarrow> 'a \<Rightarrow> 'a list \<Rightarrow> 'a list" where
  "insert_at k x xs = take k xs @ x # drop k xs"

text \<open>
  The six virtual lists of a board in the order archive, done, delegated, recurring,
  proposals, waiting, and the place of a list name in that order.
\<close>

definition six_lists :: "BoardData \<Rightarrow> Item list list" where
  "six_lists d = [archive d, done_list d, delegated d, recurring d, proposals d, waiting d]"

fun list_position :: "listName \<Rightarrow> nat" where
  "list_position Archive = 0"
| "list_position Done = 1"
| "list_position Delegated = 2"
| "list_position Recurring = 3"
| "list_position Proposals = 4"
| "list_position Waiting = 5"

text \<open>
  The precedence of the settings in the words of the description: the explicit override,
  else the board's own (local) value, else the global value, else a default. A tier counts
  when its value is not \<^verbatim>\<open>undefined\<close>. \<open>resolved_raw\<close> is that value with \<^verbatim>\<open>null\<close> for the
  default.
\<close>

definition by_precedence :: "jsval option \<Rightarrow> jsval option \<Rightarrow> jsval option \<Rightarrow> jsval \<Rightarrow> jsval" where
  "by_precedence override local global dflt =
     (case override of
        Some v \<Rightarrow> v
      | None \<Rightarrow> (case local of Some v \<Rightarrow> v | None \<Rightarrow> (case global of Some v \<Rightarrow> v | None \<Rightarrow> dflt)))"

definition resolved_raw :: "KanbanSettings option \<Rightarrow> Manager \<Rightarrow> string \<Rightarrow> jsval" where
  "resolved_raw supplied m key =
     by_precedence (supplied_get supplied key) (settings (board_data (state m)) key)
       (globalSettings m key) JNull"

text \<open>
  How a key of the compiled settings falls back to its built-in default: when the value
  found by precedence is falsy (the keys compiled with \<^verbatim>\<open>||\<close>), when it is \<^verbatim>\<open>null\<close> (the
  keys compiled with \<^verbatim>\<open>??\<close>), or not at all. \<open>builtin_defaults\<close> lists the keys with
  their defaults; the defaults of \<^verbatim>\<open>date-display-format\<close> and \<^verbatim>\<open>archive-date-format\<close> are
  computed from the compiled date and time formats, and the three empty arrays are new.
\<close>

datatype fallback = IfFalsy jsval | IfNull jsval | NoDefault

fun with_default :: "fallback \<Rightarrow> jsval \<Rightarrow> jsval" where
  "with_default (IfFalsy d) v = (if truthy v then v else d)"
| "with_default (IfNull d) v = (if v = JNull then d else v)"
| "with_default NoDefault v = v"

definition builtin_defaults :: "Host \<Rightarrow> nat \<Rightarrow> (string \<Rightarrow> jsval) \<Rightarrow> (string \<times> fallback) list" where
  "builtin_defaults h r raw =
     (let dateFormat = with_default (IfFalsy (JStr (defaultDateFormat h))) (raw ''date-format'');
          timeFormat = with_default (IfFalsy (JStr (defaultTimeFormat h))) (raw ''time-format'')
      in [(''date-format'', IfFalsy (JStr (defaultDateFormat h))),
          (''time-format'', IfFalsy (JStr (defaultTimeFormat h))),
          (''date-display-format'', IfFalsy dateFormat),
          (''archive-date-format'',
             IfFalsy (JStr (toString dateFormat @ '' '' @ toString timeFormat))),
          (''date-trigger'', IfFalsy (JStr (defaultDateTrigger h))),
          (''time-trigger'', IfFalsy (JStr (defaultTimeTrigger h))),
          (''inline-metadata-position'', IfFalsy (JStr (defaultMetadataPosition h))),
          (''link-date-to-daily-note'', NoDefault),
          (''move-dates'', NoDefault),
          (''move-tags'', NoDefault),
          (''move-task-metadata'', NoDefault),
          (''show-add-list'', IfNull (JBool True)),
          (''show-archive-all'', IfNull (JBool True)),
          (''show-view-as-markdown'', IfNull (JBool True)),
          (''show-board-settings'', IfNull (JBool True)),
          (''show-search'', IfNull (JBool True)),
          (''show-set-view'', IfNull (JBool True)),
          (''tag-colors'', IfNull (JArr (r + 1) [])),
          (''tag-sort'', IfNull (JArr (r + 2) [])),
          (''date-colors'', IfNull (JArr (r + 3) [])),
          (''tag-action'', IfNull (JStr ''obsidian''))])"

text \<open>
  A title is clean for a list of alternatives when the token expression matches at no
  position of it; the alternatives are space free when no character of their tokens
  folds to the same character as a space.
\<close>

definition clean :: "string list \<Rightarrow> string \<Rightarrow> bool" where
  "clean alts s \<longleftrightarrow> (\<forall>i. match_alt alts (drop i s) = None)"

definition space_free :: "string list \<Rightarrow> bool" where
  "space_free alts \<longleftrightarrow>
     (\<forall>a \<in> set alts. \<forall>q \<in> set (priority_token a). canonicalize q \<noteq> canonicalize (CHR '' ''))"

section \<open>Pane and selection state: what holds after every sequence of calls\<close>

lemmas pane_defs =
  selectItem_def toggleArchive_def openArchive_def closeArchive_def
  toggleDone_def openDone_def closeDone_def
  toggleDelegated_def openDelegated_def closeDelegated_def
  toggleRecurring_def openRecurring_def closeRecurring_def
  toggleProposals_def openProposals_def closeProposals_def
  toggleWaiting_def openWaiting_def closeWaiting_def notifyReceivers_def

lemma pane_inv_step: "pane_inv m \<Longrightarrow> pane_inv (pane_step c m)"
  by (cases c) (auto simp add: pane_inv_def pane_defs Let_def)

lemma pane_inv_run: "pane_inv m \<Longrightarrow> pane_inv (pane_run cs m)"
  by (induction cs arbitrary: m) (simp_all add: pane_inv_step)

lemma pane_initial_inv: "panes_initial m \<Longrightarrow> pane_inv m"
  by (simp add: panes_initial_def pane_inv_def)

lemma openPane_opens: "paneOpen name (openPane name m) \<and> selectedItemId (openPane name m) = None"
  by (cases name) (simp_all add: pane_defs)

text \<open>
  Claim C2, as the code has it. After every finite sequence of selection and pane calls
  from the initial state: while the archive pane is open no card is selected; at most one
  of the recurring, proposals and waiting panes is open; and a further \<^verbatim>\<open>open<Pane>\<close> call
  leaves that pane open with no card selected. Whether opening the archive, done or
  delegated pane closes every other pane is not part of the statement.
\<close>

theorem pane_invariant:
  assumes "panes_initial m"
  shows "pane_inv (pane_run cs m) \<and>
         paneOpen name (openPane name (pane_run cs m)) \<and>
         selectedItemId (openPane name (pane_run cs m)) = None"
  using assms by (simp add: pane_initial_inv pane_inv_run openPane_opens)

theorem pane_invariant_witness:
  "panes_initial sampleManager \<and>
   isArchiveOpen (pane_run [SelectItem (Some ''card''), OpenArchive] sampleManager) \<and>
   selectedItemId (pane_run [SelectItem (Some ''card''), OpenArchive] sampleManager) = None"
  using pane_invariant [of sampleManager "[SelectItem (Some ''card''), OpenArchive]" Archive]
  by (simp add: pane_inv_def panes_initial_def sampleManager_def pane_defs)

text \<open>
  Claim C2 as stated fails: after \<^verbatim>\<open>openDone()\<close> and \<^verbatim>\<open>selectItem('card')\<close> the done pane is
  open and a card is selected, since \<^verbatim>\<open>selectItem\<close> closes the archive pane only.
\<close>

theorem pane_exclusion_counterexample:
  "panes_initial sampleManager \<and>
   isDoneOpen (pane_run [OpenDone, SelectItem (Some ''card'')] sampleManager) \<and>
   selectedItemId (pane_run [OpenDone, SelectItem (Some ''card'')] sampleManager) = Some ''card''"
  by (simp add: panes_initial_def sampleManager_def pane_defs)

text \<open>
  Two overlays can also be open together: \<^verbatim>\<open>openArchive()\<close> closes no other pane, although
  the comment in \<^verbatim>\<open>toggleArchive\<close> reads "Close all other panes when opening archive" and the
  operations of the recurring, proposals and waiting panes close all five others.
\<close>

lemma overlays_overlap_example:
  "isDoneOpen (pane_run [OpenDone, OpenArchive] sampleManager) \<and>
   isArchiveOpen (pane_run [OpenDone, OpenArchive] sampleManager)"
  by (simp add: sampleManager_def pane_defs)

section \<open>Saving and failing mutations\<close>

lemma compileSettings_fields [simp]:
  "state (compileSettings h s m) = state m"
  "globalSettings (compileSettings h s m) = globalSettings m"
  "viewSet (compileSettings h s m) = viewSet m"
  "settingsNotifiers (compileSettings h s m) = settingsNotifiers m"
  "selectedItemId (compileSettings h s m) = selectedItemId m"
  "isArchiveOpen (compileSettings h s m) = isArchiveOpen m"
  "isDoneOpen (compileSettings h s m) = isDoneOpen m"
  "isDelegatedOpen (compileSettings h s m) = isDelegatedOpen m"
  "isRecurringOpen (compileSettings h s m) = isRecurringOpen m"
  "isProposalsOpen (compileSettings h s m) = isProposalsOpen m"
  "isWaitingOpen (compileSettings h s m) = isWaitingOpen m"
  "previousPaneMode (compileSettings h s m) = previousPaneMode m"
  "lastDeletedBuffer (compileSettings h s m) = lastDeletedBuffer m"
  "published (compileSettings h s m) = published m"
  "notified (compileSettings h s m) = notified m"
  by (simp_all add: compileSettings_def Let_def)

lemma pushError_fields [simp]:
  "board_children (pushError e b) = board_children b"
  "board_id (pushError e b) = board_id b"
  "settings (board_data (pushError e b)) = settings (board_data b)"
  "archive (board_data (pushError e b)) = archive (board_data b)"
  "done_list (board_data (pushError e b)) = done_list (board_data b)"
  "delegated (board_data (pushError e b)) = delegated (board_data b)"
  "recurring (board_data (pushError e b)) = recurring (board_data b)"
  "proposals (board_data (pushError e b)) = proposals (board_data b)"
  "waiting (board_data (pushError e b)) = waiting (board_data b)"
  by (cases e; simp)+

lemma getList_errors_update [simp]: "getList name (d\<lparr>errors := es\<rparr>) = getList name d"
  by (cases name) simp_all

lemma getList_pushError [simp]:
  "getList name (board_data (pushError e b)) = getList name (board_data b)"
  by (cases name) simp_all

lemma sampleHost_irreflexive: "\<not> shouldRefreshBoard sampleHost s s"
  by (simp add: sampleHost_def)

lemma setError_Suc:
  assumes "\<forall>s. \<not> shouldRefreshBoard h s s"
  shows "setError (Suc n) p h (Printable e) m =
           Some (Inr ((compileSettings h None (m\<lparr>state := pushError e (state m)\<rparr>))
                        \<lparr>published := published m @ [pushError e (state m)]\<rparr>))"
  using assms by (simp add: setState_try_def Let_def notifySettings_def)

lemma saveToDisk_frame:
  "saveToDisk p m = Inr m' \<Longrightarrow> m' = m\<lparr>viewSet := viewSet m'\<rparr>"
  by (auto simp add: saveToDisk_def split: if_splits list.splits sum.splits)

text \<open>
  Claim C3. When the board carries an error, \<^verbatim>\<open>saveToDisk()\<close> returns the manager as it
  was, whatever the parser: the serializer is not consulted (a serializer that throws
  changes nothing either), no view is handed a text, and every view keeps its cached text.
\<close>

theorem saveToDisk_guard:
  assumes "errors (board_data (state m)) \<noteq> []"
  shows "saveToDisk p m = Inr m"
  using assms by (simp add: saveToDisk_def)

theorem saveToDisk_guard_witness:
  "errors (board_data (state (sampleManager\<lparr>state := pushError (Exn ''SyntaxError'' (Some ''at parse''))
                                                     emptyBoard\<rparr>))) \<noteq> [] \<and>
   saveToDisk sampleParser
     (sampleManager\<lparr>state := pushError (Exn ''SyntaxError'' (Some ''at parse'')) emptyBoard\<rparr>) =
   Inr (sampleManager\<lparr>state := pushError (Exn ''SyntaxError'' (Some ''at parse'')) emptyBoard\<rparr>)"
  using saveToDisk_guard
    [of "sampleManager\<lparr>state := pushError (Exn ''SyntaxError'' (Some ''at parse'')) emptyBoard\<rparr>"
        sampleParser]
  by simp

text \<open>
  Claim C4, as the code has it. Let the function handed to \<^verbatim>\<open>setState\<close> throw, on the
  current board, a value of which \<^verbatim>\<open>e.toString()\<close> returns (an \<^verbatim>\<open>Error\<close> object, a string, a
  number), and let \<^verbatim>\<open>shouldRefreshBoard\<close> answer no on two equal settings objects. Then
  \<^verbatim>\<open>setState\<close> returns (two nested calls suffice, for any larger depth bound as well):
  nothing is thrown to the caller. The resulting board has the lanes and the six virtual
  lists of the board before the call, and its error list is the old one with exactly one
  new entry, made from the thrown value, at the end. The entry arrives by one further
  transition: the receivers are told once, with the resulting board, and no view is
  handed a text.
\<close>

theorem setState_transform_throws:
  assumes "\<forall>s. \<not> shouldRefreshBoard h s s" and "f (state m) = Inl (Printable (Exn d s))"
  shows "\<exists>m'. setState (Suc (Suc n)) p h (Transform f) shouldSave m = Some (Inr m') \<and>
           board_children (state m') = board_children (state m) \<and>
           (\<forall>name. getList name (board_data (state m')) = getList name (board_data (state m))) \<and>
           errors (board_data (state m')) =
             errors (board_data (state m)) @ [\<lparr>description = d, stack = s\<rparr>] \<and>
           viewSet m' = viewSet m \<and>
           published m' = published m @ [state m']"
  using assms by (simp add: setState_try_def Let_def setError_Suc del: setError.simps)

theorem setState_transform_throws_witness:
  "(\<forall>s. \<not> shouldRefreshBoard sampleHost s s) \<and>
   throwTypeError (state sampleManager) =
     Inl (Printable (Exn ''TypeError: x is undefined'' (Some ''at transform''))) \<and>
   (\<exists>m'. setState (Suc (Suc 0)) sampleParser sampleHost (Transform throwTypeError)
            True sampleManager = Some (Inr m') \<and>
          errors (board_data (state m')) =
            [\<lparr>description = ''TypeError: x is undefined'', stack = Some ''at transform''\<rparr>])"
  using setState_transform_throws
    [of sampleHost throwTypeError sampleManager "''TypeError: x is undefined''"
        "Some ''at transform''" 0 sampleParser True]
  by (auto simp add: sampleHost_irreflexive throwTypeError_def sampleManager_def emptyBoard_def)

text \<open>
  Claim C4 as stated fails for a function that throws \<^verbatim>\<open>null\<close>: the \<^verbatim>\<open>catch\<close> of \<^verbatim>\<open>setState\<close>
  hands the value to \<^verbatim>\<open>setError\<close>, whose \<^verbatim>\<open>e.toString()\<close> throws a \<^verbatim>\<open>TypeError\<close>; that error
  leaves \<^verbatim>\<open>setState\<close>, and the manager is as before the call, with no entry in the error
  list of its board.
\<close>

theorem setState_throw_null_counterexample:
  "throwNull (state sampleManager) = Inl NoToString \<and>
   setState (Suc (Suc 0)) sampleParser sampleHost (Transform throwNull) True sampleManager =
     Some (Inl (toStringTypeError sampleHost, sampleManager)) \<and>
   errors (board_data (state sampleManager)) = []"
  by (simp add: setState_try_def throwNull_def sampleManager_def emptyBoard_def)

section \<open>Transitions that keep the settings\<close>

lemma with_errors_Nil [simp]: "with_errors [] b = b"
  by (simp add: with_errors_def)

lemma with_errors_fields [simp]:
  "board_children (with_errors es b) = board_children b"
  "settings (board_data (with_errors es b)) = settings (board_data b)"
  "getList name (board_data (with_errors es b)) = getList name (board_data b)"
  "errors (board_data (with_errors es b)) = errors (board_data b) @ es"
  by (simp_all add: with_errors_def)

lemma pushError_with_errors: "\<exists>r. pushError e b = with_errors [r] b"
  by (cases e) (auto simp add: with_errors_def)

text \<open>
  A call of \<^verbatim>\<open>setState\<close> whose next board has the settings of the current one returns
  within two nested calls. The board it installs is the next board, with one error entry
  more when the serializer threw during the save; the receivers are told once.
\<close>

lemma setState_keep:
  assumes irr: "\<forall>s. \<not> shouldRefreshBoard h s s"
    and nxt: "(case st of Value b \<Rightarrow> Inr b | Transform f \<Rightarrow> f (state m)) = Inr b"
    and same: "settings (board_data b) = settings (board_data (state m))"
  shows "\<exists>m' es. setState (Suc (Suc n)) p h st shouldSave m = Some (Inr m') \<and>
           state m' = with_errors es b \<and> length es \<le> 1 \<and>
           published m' = published m @ [state m'] \<and>
           lastDeletedBuffer m' = lastDeletedBuffer m \<and>
           notified m' = notified m"
proof -
  define m2 where "m2 = compileSettings h None (m\<lparr>state := b\<rparr>)"
  have noref: "\<not> shouldRefreshBoard h (settings (board_data (state m))) (settings (board_data b))"
    using irr same by simp
  show ?thesis
  proof (cases "shouldSave")
    case False
    have "setState (Suc (Suc n)) p h st shouldSave m =
            Some (Inr (m2\<lparr>published := published m2 @ [state m2]\<rparr>))"
      using nxt noref same False
      by (simp add: setState_try_def Let_def notifySettings_def m2_def del: setError.simps)
    then show ?thesis
      by (intro exI[of _ "m2\<lparr>published := published m2 @ [state m2]\<rparr>"] exI[of _ "[]"])
         (simp add: m2_def)
  next
    case True
    show ?thesis
    proof (cases "saveToDisk p m2")
      case (Inr m3)
      then have fr: "m3 = m2\<lparr>viewSet := viewSet m3\<rparr>" by (rule saveToDisk_frame)
      have "setState (Suc (Suc n)) p h st shouldSave m =
              Some (Inr (m3\<lparr>published := published m3 @ [state m3]\<rparr>))"
        using nxt noref same True Inr
        by (simp add: setState_try_def Let_def notifySettings_def m2_def del: setError.simps)
      moreover have "state m3 = b" "published m3 = published m"
        "lastDeletedBuffer m3 = lastDeletedBuffer m" "notified m3 = notified m"
        by (subst fr, simp add: m2_def)+
      ultimately show ?thesis
        by (intro exI[of _ "m3\<lparr>published := published m3 @ [state m3]\<rparr>"] exI[of _ "[]"])
           simp
    next
      case (Inl e)
      obtain r where r: "pushError e b = with_errors [r] b"
        using pushError_with_errors by blast
      have "setState (Suc (Suc n)) p h st shouldSave m = setError (Suc n) p h (Printable e) m2"
        using nxt noref same True Inl
        by (simp add: setState_try_def Let_def m2_def del: setError.simps)
      then have "setState (Suc (Suc n)) p h st shouldSave m =
              Some (Inr ((compileSettings h None (m2\<lparr>state := pushError e (state m2)\<rparr>))
                      \<lparr>published := published m2 @ [pushError e (state m2)]\<rparr>))"
        by (simp only: setError_Suc[OF irr])
      then show ?thesis
        by (intro exI[of _ "(compileSettings h None (m2\<lparr>state := pushError e (state m2)\<rparr>))
                      \<lparr>published := published m2 @ [pushError e (state m2)]\<rparr>"] exI[of _ "[r]"])
           (simp add: m2_def r)
    qed
  qed
qed

section \<open>Archiving\<close>











section \<open>The undo buffer\<close>

lemma getList_setList [simp]:
  "getList name (setList name' xs d) = (if name = name' then xs else getList name d)"
  by (cases name; cases name') simp_all

lemma settings_setList [simp]: "settings (setList name xs d) = settings d"
  by (cases name) simp_all

lemma restoreTransform_settings:
  "\<exists>b'. restoreTransform item loc b = Inr b' \<and>
        settings (board_data b') = settings (board_data b)"
  by (cases loc) (auto split: option.splits)

lemma js_splice_insert_in_range:
  "0 \<le> i \<Longrightarrow> i \<le> int (length xs) \<Longrightarrow> js_splice_insert xs i x = insert_at (nat i) x xs"
  by (simp add: js_splice_insert_def insert_at_def Let_def min_def)

lemma restoreTransform_lane:
  "location_in_board (LaneLoc li ii) b \<Longrightarrow>
   restoreTransform item (LaneLoc li ii) b =
     Inr (b\<lparr>board_children :=
            (board_children b)[nat li :=
               (board_children b ! nat li)\<lparr>lane_children :=
                  insert_at (nat ii) item (lane_children (board_children b ! nat li))\<rparr>]\<rparr>)"
  by (simp add: js_index_def js_splice_insert_in_range)

lemma restoreTransform_virtual:
  "location_in_board (VirtualLoc name ii) b \<Longrightarrow>
   restoreTransform item (VirtualLoc name ii) b =
     Inr (b\<lparr>board_data :=
            setList name (insert_at (nat ii) item (getList name (board_data b))) (board_data b)\<rparr>)"
  by (simp add: js_splice_insert_in_range)

lemma six_lists_setList:
  "six_lists (setList name xs d) = (six_lists d)[list_position name := xs]"
  by (cases name) (simp_all add: six_lists_def)

lemma six_lists_getList: "six_lists d ! list_position name = getList name d"
  by (cases name) (simp_all add: six_lists_def)

lemma six_lists_with_errors [simp]:
  "six_lists (board_data (with_errors es b)) = six_lists (board_data b)"
  by (simp add: six_lists_def with_errors_def)

lemma restoreLastDeleted_run:
  assumes irr: "\<forall>s. \<not> shouldRefreshBoard h s s"
    and buf: "lastDeletedBuffer m = Some (item, loc)"
    and tr: "restoreTransform item loc (state m) = Inr b"
  shows "\<exists>m' es. restoreLastDeleted (Suc (Suc n)) p h m = Some (Inr m') \<and>
           state m' = with_errors es b \<and> length es \<le> 1 \<and> lastDeletedBuffer m' = None"
proof -
  have same: "settings (board_data b) = settings (board_data (state m))"
    using restoreTransform_settings[of item loc "state m"] tr by simp
  have nxt: "(case Transform (restoreTransform item loc) of
                Value b \<Rightarrow> Inr b | Transform f \<Rightarrow> f (state m)) = Inr b"
    using tr by simp
  from setState_keep[OF irr nxt same, of n p True]
  obtain m' es where
    "setState (Suc (Suc n)) p h (Transform (restoreTransform item loc)) True m = Some (Inr m')"
    "state m' = with_errors es b" "length es \<le> 1"
    by blast
  then show ?thesis
    using buf
    by (intro exI[of _ "m'\<lparr>lastDeletedBuffer := None\<rparr>"] exI[of _ es])
       (simp add: restoreLastDeleted_def del: setState.simps)
qed

lemma restoreLastDeleted_empty:
  "lastDeletedBuffer m = None \<Longrightarrow> restoreLastDeleted k p h m = Some (Inr m)"
  by (simp add: restoreLastDeleted_def)

text \<open>
  Claim C8. After \<^verbatim>\<open>saveDeletedItem(A, locA)\<close> and \<^verbatim>\<open>saveDeletedItem(B, locB)\<close> the buffer holds
  B with its location and nothing of A. When B's location exists in the board (the lane
  exists and the index is at most the number of its cards, or the index is at most the
  length of the named list) and \<^verbatim>\<open>shouldRefreshBoard\<close> answers no on equal settings,
  \<^verbatim>\<open>restoreLastDeleted()\<close> returns. For a lane location, the board it installs has the same
  number of lanes, the lane at the recorded lane index holds its former cards with B at
  exactly the recorded item index and keeps its identifier and data, every other lane is
  as before, and so are the six lists. For a virtual-list location, the lanes are as
  before and the six lists are the former six with, at the place of the named list, that
  list with B at exactly the recorded index. The buffer is empty, and every further
  \<^verbatim>\<open>restoreLastDeleted()\<close> leaves the manager as it is, so A does not come back.
\<close>

theorem undo_single_slot:
  assumes "\<forall>s. \<not> shouldRefreshBoard h s s" and "location_in_board locB (state m)"
  shows "lastDeletedBuffer (saveDeletedItem B locB (saveDeletedItem A locA m)) = Some (B, locB) \<and>
         (\<exists>m'. restoreLastDeleted (Suc (Suc n)) p h
                  (saveDeletedItem B locB (saveDeletedItem A locA m)) = Some (Inr m') \<and>
            (\<forall>li ii. locB = LaneLoc li ii \<longrightarrow>
               length (board_children (state m')) = length (board_children (state m)) \<and>
               lane_children (board_children (state m') ! nat li) =
                 insert_at (nat ii) B (lane_children (board_children (state m) ! nat li)) \<and>
               lane_id (board_children (state m') ! nat li) =
                 lane_id (board_children (state m) ! nat li) \<and>
               lane_data (board_children (state m') ! nat li) =
                 lane_data (board_children (state m) ! nat li) \<and>
               (\<forall>j < length (board_children (state m)). j \<noteq> nat li \<longrightarrow>
                  board_children (state m') ! j = board_children (state m) ! j) \<and>
               six_lists (board_data (state m')) = six_lists (board_data (state m))) \<and>
            (\<forall>name ii. locB = VirtualLoc name ii \<longrightarrow>
               board_children (state m') = board_children (state m) \<and>
               six_lists (board_data (state m')) =
                 (six_lists (board_data (state m)))[list_position name :=
                    insert_at (nat ii) B (six_lists (board_data (state m)) ! list_position name)]) \<and>
            lastDeletedBuffer m' = None \<and>
            (\<forall>k. restoreLastDeleted k p h m' = Some (Inr m')))"
proof -
  let ?m1 = "saveDeletedItem B locB (saveDeletedItem A locA m)"
  have buf: "lastDeletedBuffer ?m1 = Some (B, locB)"
    by (simp add: saveDeletedItem_def)
  have st: "state ?m1 = state m"
    by (simp add: saveDeletedItem_def)
  obtain b where tr: "restoreTransform B locB (state ?m1) = Inr b"
    using restoreTransform_settings by blast
  have tr': "restoreTransform B locB (state m) = Inr b"
    using tr by (simp only: st)
  from restoreLastDeleted_run[OF assms(1) buf tr, of n p]
  obtain m' es where m': "restoreLastDeleted (Suc (Suc n)) p h ?m1 = Some (Inr m')"
    "state m' = with_errors es b" "lastDeletedBuffer m' = None"
    by blast
  have again: "\<forall>k. restoreLastDeleted k p h m' = Some (Inr m')"
    using m'(3) by (simp add: restoreLastDeleted_empty)
  have lane_case:
    "length (board_children (state m')) = length (board_children (state m)) \<and>
     lane_children (board_children (state m') ! nat li) =
       insert_at (nat ii) B (lane_children (board_children (state m) ! nat li)) \<and>
     lane_id (board_children (state m') ! nat li) =
       lane_id (board_children (state m) ! nat li) \<and>
     lane_data (board_children (state m') ! nat li) =
       lane_data (board_children (state m) ! nat li) \<and>
     (\<forall>j < length (board_children (state m)). j \<noteq> nat li \<longrightarrow>
        board_children (state m') ! j = board_children (state m) ! j) \<and>
     six_lists (board_data (state m')) = six_lists (board_data (state m))"
    if loc: "locB = LaneLoc li ii" for li ii
  proof -
    have inb: "location_in_board (LaneLoc li ii) (state m)"
      using assms(2) loc by simp
    then have lt: "nat li < length (board_children (state m))"
      by (simp add: nat_less_iff)
    have b: "b = (state m)\<lparr>board_children :=
            (board_children (state m))[nat li :=
               (board_children (state m) ! nat li)\<lparr>lane_children :=
                  insert_at (nat ii) B (lane_children (board_children (state m) ! nat li))\<rparr>]\<rparr>"
      using tr' restoreTransform_lane[OF inb, of B] by (simp add: loc del: restoreTransform.simps)
    show ?thesis
      using lt by (simp add: m'(2) b)
  qed
  have virtual_case:
    "board_children (state m') = board_children (state m) \<and>
     six_lists (board_data (state m')) =
       (six_lists (board_data (state m)))[list_position name :=
          insert_at (nat ii) B (six_lists (board_data (state m)) ! list_position name)]"
    if loc: "locB = VirtualLoc name ii" for name ii
  proof -
    have inb: "location_in_board (VirtualLoc name ii) (state m)"
      using assms(2) loc by simp
    have b: "b = (state m)\<lparr>board_data :=
            setList name (insert_at (nat ii) B (getList name (board_data (state m))))
              (board_data (state m))\<rparr>"
      using tr' restoreTransform_virtual[OF inb, of B] by (simp add: loc del: restoreTransform.simps)
    show ?thesis
      by (simp add: m'(2) b six_lists_setList six_lists_getList)
  qed
  show ?thesis
    using buf m'(1,3) again lane_case virtual_case by blast
qed

theorem undo_single_slot_witness:
  "(\<forall>s. \<not> shouldRefreshBoard sampleHost s s) \<and>
   location_in_board (LaneLoc 0 1) (state todoLaneManager) \<and>
   (\<exists>m'. restoreLastDeleted (Suc (Suc 0)) sampleParser sampleHost
            (saveDeletedItem cardB (LaneLoc 0 1)
               (saveDeletedItem (mkCard ''z'' ''Old card'' False '' '') (VirtualLoc Done 0)
                  todoLaneManager)) = Some (Inr m') \<and>
          length (board_children (state m')) = 1 \<and>
          lane_children (board_children (state m') ! 0) = [cardA, cardB, cardC] \<and>
          lastDeletedBuffer m' = None) \<and>
   location_in_board (VirtualLoc Done 1) (state doneListManager) \<and>
   (\<exists>m'. restoreLastDeleted (Suc (Suc 0)) sampleParser sampleHost
            (saveDeletedItem cardB (VirtualLoc Done 1)
               (saveDeletedItem (mkCard ''z'' ''Old card'' False '' '') (LaneLoc 0 0)
                  doneListManager)) = Some (Inr m') \<and>
          done_list (board_data (state m')) = [cardA, cardB, cardC] \<and>
          archive (board_data (state m')) = [] \<and>
          board_children (state m') = [] \<and>
          lastDeletedBuffer m' = None)"
proof -
  have irr: "\<forall>s. \<not> shouldRefreshBoard sampleHost s s"
    by (simp add: sampleHost_irreflexive)
  have loc1: "location_in_board (LaneLoc 0 1) (state todoLaneManager)"
    by (simp add: todoLaneManager_def mkLane_def)
  have loc2: "location_in_board (VirtualLoc Done 1) (state doneListManager)"
    by (simp add: doneListManager_def emptyBoard_def)
  have lanes1: "length (board_children (state todoLaneManager)) = 1 \<and>
                lane_children (board_children (state todoLaneManager) ! 0) = [cardA, cardC]"
    by (simp add: todoLaneManager_def mkLane_def)
  have lists2: "six_lists (board_data (state doneListManager)) = [[], [cardA, cardC], [], [], [], []] \<and>
                board_children (state doneListManager) = []"
    by (simp add: doneListManager_def emptyBoard_def six_lists_def)
  from undo_single_slot [OF irr loc1, of cardB "mkCard ''z'' ''Old card'' False '' ''"
      "VirtualLoc Done 0" 0 sampleParser]
  have w1: "\<exists>m'. restoreLastDeleted (Suc (Suc 0)) sampleParser sampleHost
            (saveDeletedItem cardB (LaneLoc 0 1)
               (saveDeletedItem (mkCard ''z'' ''Old card'' False '' '') (VirtualLoc Done 0)
                  todoLaneManager)) = Some (Inr m') \<and>
          length (board_children (state m')) = 1 \<and>
          lane_children (board_children (state m') ! 0) = [cardA, cardB, cardC] \<and>
          lastDeletedBuffer m' = None"
    using lanes1 by (auto simp add: insert_at_def)
  from undo_single_slot [OF irr loc2, of cardB "mkCard ''z'' ''Old card'' False '' ''"
      "LaneLoc 0 0" 0 sampleParser]
  have w2: "\<exists>m'. restoreLastDeleted (Suc (Suc 0)) sampleParser sampleHost
            (saveDeletedItem cardB (VirtualLoc Done 1)
               (saveDeletedItem (mkCard ''z'' ''Old card'' False '' '') (LaneLoc 0 0)
                  doneListManager)) = Some (Inr m') \<and>
          done_list (board_data (state m')) = [cardA, cardB, cardC] \<and>
          archive (board_data (state m')) = [] \<and>
          board_children (state m') = [] \<and>
          lastDeletedBuffer m' = None"
    using lists2 by (auto simp add: insert_at_def six_lists_def)
  show ?thesis using irr loc1 loc2 w1 w2 by blast
qed

text \<open>
  Claim C10. With a card in the buffer (and \<^verbatim>\<open>shouldRefreshBoard\<close> answering no on equal
  settings) \<^verbatim>\<open>restoreLastDeleted()\<close> returns and the buffer is empty afterwards. This
  includes the case of a recorded lane index at which the board has no lane: then the
  lanes and the six lists are those from before the call, nothing was put back, and the
  card is gone from the buffer.
\<close>

theorem restoreLastDeleted_consumes_buffer:
  assumes "\<forall>s. \<not> shouldRefreshBoard h s s" and "lastDeletedBuffer m = Some (item, loc)"
  shows "\<exists>m'. restoreLastDeleted (Suc (Suc n)) p h m = Some (Inr m') \<and>
           lastDeletedBuffer m' = None \<and>
           (\<forall>li ii. loc = LaneLoc li ii \<and> js_index (board_children (state m)) li = None \<longrightarrow>
              board_children (state m') = board_children (state m) \<and>
              (\<forall>name. getList name (board_data (state m')) =
                      getList name (board_data (state m))))"
proof -
  obtain b where tr: "restoreTransform item loc (state m) = Inr b"
    using restoreTransform_settings by blast
  from restoreLastDeleted_run[OF assms tr, of n p]
  obtain m' es where m': "restoreLastDeleted (Suc (Suc n)) p h m = Some (Inr m')"
    "state m' = with_errors es b" "lastDeletedBuffer m' = None"
    by blast
  have "board_children (state m') = board_children (state m) \<and>
        (\<forall>name. getList name (board_data (state m')) = getList name (board_data (state m)))"
    if "loc = LaneLoc li ii" "js_index (board_children (state m)) li = None" for li ii
    using that tr m'(2) by simp
  then show ?thesis using m'(1,3) by blast
qed

theorem restoreLastDeleted_consumes_buffer_witness:
  "(\<forall>s. \<not> shouldRefreshBoard sampleHost s s) \<and>
   lastDeletedBuffer (saveDeletedItem cardB (LaneLoc 4 0) todoLaneManager) =
     Some (cardB, LaneLoc 4 0) \<and>
   js_index (board_children (state (saveDeletedItem cardB (LaneLoc 4 0) todoLaneManager))) 4 = None \<and>
   (\<exists>m'. restoreLastDeleted (Suc (Suc 0)) sampleParser sampleHost
            (saveDeletedItem cardB (LaneLoc 4 0) todoLaneManager) = Some (Inr m') \<and>
          lastDeletedBuffer m' = None \<and>
          map lane_children (board_children (state m')) = [[cardA, cardC]])"
proof -
  let ?m = "saveDeletedItem cardB (LaneLoc 4 0) todoLaneManager"
  have irr: "\<forall>s. \<not> shouldRefreshBoard sampleHost s s"
    by (simp add: sampleHost_irreflexive)
  have buf: "lastDeletedBuffer ?m = Some (cardB, LaneLoc 4 0)"
    by (simp add: saveDeletedItem_def)
  have miss: "js_index (board_children (state ?m)) 4 = None"
    by (simp add: saveDeletedItem_def todoLaneManager_def js_index_def)
  have lanes: "map lane_children (board_children (state ?m)) = [[cardA, cardC]]"
    by (simp add: saveDeletedItem_def todoLaneManager_def mkLane_def)
  from restoreLastDeleted_consumes_buffer [OF irr buf, of 0 sampleParser]
  show ?thesis using irr buf miss lanes by auto
qed

section \<open>Compiled settings\<close>

lemma getSettingRaw_resolved: "getSettingRaw key supplied m = resolved_raw supplied m key"
  by (simp add: getSettingRaw_def resolved_raw_def by_precedence_def getGlobalSetting_def
      split: option.splits)

lemma js_or_with_default: "js_or v d = with_default (IfFalsy d) v"
  by (simp add: js_or_def)

lemma js_nullish_with_default: "js_nullish v d = with_default (IfNull d) v"
  by (simp add: js_nullish_def)

lemma compiled_table:
  "(k, d) \<in> set (builtin_defaults h (nextRef m) (resolved_raw supplied m)) \<Longrightarrow>
   compiledSettings (compileSettings h supplied m) k =
     Some (with_default d (resolved_raw supplied m k))"
  unfolding builtin_defaults_def Let_def
  apply (simp only: list.set insert_iff empty_iff prod.inject)
  apply (elim disjE conjE)
  apply (simp_all add: compileSettings_def Let_def getSettingRaw_resolved js_or_with_default
      js_nullish_with_default del: with_default.simps(1,2))
  done

lemma compiled_metadata_keys:
  "compiledSettings (compileSettings h supplied m) ''metadata-keys'' =
     Some (JArr (nextRef m)
            (dedup (spread_or_empty (by_precedence None None (globalSettings m ''metadata-keys'') JNull) @
                    spread_or_empty (resolved_raw supplied m ''metadata-keys''))))"
  by (simp add: compileSettings_def Let_def getSettingRaw_resolved getGlobalSetting_def
      by_precedence_def del: with_default.simps)

text \<open>
  Claim C6, as the code has it. For every key listed in \<open>builtin_defaults\<close> the compiled
  value is the value found by the precedence explicit override, local, global (the first
  that is not \<^verbatim>\<open>undefined\<close>, else \<^verbatim>\<open>null\<close>), replaced by the key's built-in default when
  that value is falsy, respectively \<^verbatim>\<open>null\<close>, as the key's fallback says. The key
  \<^verbatim>\<open>metadata-keys\<close> is not resolved by precedence: its compiled value is a new array with
  the global elements followed by the elements found by precedence, without repetition.
  The front-matter key, \<^verbatim>\<open>archive-date-separator\<close> and the derived
  \<^verbatim>\<open>date-time-display-format\<close> are not part of the statement.
\<close>

theorem settings_precedence:
  "(\<forall>(k, d) \<in> set (builtin_defaults h (nextRef m) (resolved_raw supplied m)).
      compiledSettings (compileSettings h supplied m) k =
        Some (with_default d (resolved_raw supplied m k))) \<and>
   compiledSettings (compileSettings h supplied m) ''metadata-keys'' =
     Some (JArr (nextRef m)
            (dedup (spread_or_empty (by_precedence None None (globalSettings m ''metadata-keys'') JNull) @
                    spread_or_empty (resolved_raw supplied m ''metadata-keys''))))"
  using compiled_table[of _ _ h m supplied] compiled_metadata_keys[of h supplied m] by blast

text \<open>
  The two cases named in the claim: a local date format \<^verbatim>\<open>YYYY\<close> above the global
  \<^verbatim>\<open>MM/DD\<close> compiles to \<^verbatim>\<open>YYYY\<close>, and without a local value the result is \<^verbatim>\<open>MM/DD\<close>.
\<close>

theorem settings_precedence_witness:
  "(''date-format'', IfFalsy (JStr ''YYYY-MM-DD'')) \<in>
      set (builtin_defaults sampleHost (nextRef localDateManager) (resolved_raw None localDateManager)) \<and>
   compiledSettings (compileSettings sampleHost None localDateManager) ''date-format'' =
     Some (JStr ''YYYY'') \<and>
   (''date-format'', IfFalsy (JStr ''YYYY-MM-DD'')) \<in>
      set (builtin_defaults sampleHost (nextRef globalDateManager) (resolved_raw None globalDateManager)) \<and>
   compiledSettings (compileSettings sampleHost None globalDateManager) ''date-format'' =
     Some (JStr ''MM/DD'')"
proof -
  have in1: "(''date-format'', IfFalsy (JStr ''YYYY-MM-DD'')) \<in>
      set (builtin_defaults sampleHost (nextRef localDateManager) (resolved_raw None localDateManager))"
    by (simp add: builtin_defaults_def Let_def sampleHost_def)
  have in2: "(''date-format'', IfFalsy (JStr ''YYYY-MM-DD'')) \<in>
      set (builtin_defaults sampleHost (nextRef globalDateManager) (resolved_raw None globalDateManager))"
    by (simp add: builtin_defaults_def Let_def sampleHost_def)
  have r1: "resolved_raw None localDateManager ''date-format'' = JStr ''YYYY''"
    by (simp add: resolved_raw_def by_precedence_def supplied_get_def localDateManager_def)
  have r2: "resolved_raw None globalDateManager ''date-format'' = JStr ''MM/DD''"
    by (simp add: resolved_raw_def by_precedence_def supplied_get_def globalDateManager_def
        sampleManager_def emptyBoard_def)
  from settings_precedence[of sampleHost localDateManager None] in1
  have "compiledSettings (compileSettings sampleHost None localDateManager) ''date-format'' =
     Some (with_default (IfFalsy (JStr ''YYYY-MM-DD'')) (resolved_raw None localDateManager ''date-format''))"
    by blast
  moreover from settings_precedence[of sampleHost globalDateManager None] in2
  have "compiledSettings (compileSettings sampleHost None globalDateManager) ''date-format'' =
     Some (with_default (IfFalsy (JStr ''YYYY-MM-DD'')) (resolved_raw None globalDateManager ''date-format''))"
    by blast
  ultimately show ?thesis using in1 in2 by (simp add: r1 r2)
qed

text \<open>
  Claim C6 as stated fails for \<^verbatim>\<open>metadata-keys\<close>: with the local list \<^verbatim>\<open>[due]\<close> and the
  global list \<^verbatim>\<open>[owner]\<close> the compiled value is \<^verbatim>\<open>[owner, due]\<close>, where precedence gives the
  local list.
\<close>

theorem settings_precedence_counterexample:
  "compiledSettings (compileSettings sampleHost None keysManager) ''metadata-keys'' =
     Some (JArr 3 [''owner'', ''due'']) \<and>
   by_precedence None (settings (board_data (state keysManager)) ''metadata-keys'')
     (globalSettings keysManager ''metadata-keys'') JNull = JArr 1 [''due'']"
  by (simp add: compiled_metadata_keys by_precedence_def resolved_raw_def supplied_get_def
      keysManager_def)

section \<open>Settings listeners\<close>

lemma notifySettings_notified:
  "notified (notifySettings old new m) =
     notified m @ concat (map snd (filter (\<lambda>(k, fs). old k \<noteq> new k) (settingsNotifiers m)))"
  by (simp add: notifySettings_def)

lemma saveToDisk_keeps:
  "saveToDisk p m = Inr m' \<Longrightarrow>
     notified m' = notified m \<and> settingsNotifiers m' = settingsNotifiers m"
  by (auto simp add: saveToDisk_def split: if_splits list.splits sum.splits)

lemma setState_try_notified:
  assumes "setState_try p h st shouldSave m = Inr m'"
  shows "\<exists>b. (case st of Value b \<Rightarrow> Inr b | Transform f \<Rightarrow> f (state m)) = Inr b \<and>
          notified m' = notified m @
            concat (map snd (filter (\<lambda>(k, fs). settings (board_data (state m)) k \<noteq>
                                               settings (board_data b) k)
                                    (settingsNotifiers m)))"
proof (cases "case st of Value b \<Rightarrow> Inr b | Transform f \<Rightarrow> f (state m)")
  case (Inl e)
  then show ?thesis using assms by (simp add: setState_try_def Let_def)
next
  case (Inr b)
  show ?thesis
    using assms Inr
    by (auto simp add: setState_try_def Let_def notifySettings_notified
        split: if_splits sum.splits dest!: saveToDisk_keeps)
qed

lemma forceRefresh_try_notified:
  assumes "forceRefresh_try p h m = Inr m'"
  shows "notified m' = notified m @ concat (map snd (settingsNotifiers m))"
  using assms
  by (auto simp add: forceRefresh_try_def Let_def notifyAllSettings_def split: sum.splits)

text \<open>
  Claim C9, as the code has it. When the \<^verbatim>\<open>try\<close> block of \<^verbatim>\<open>setState\<close> completes,
  \<^verbatim>\<open>setState\<close> returns its result, and the listeners invoked are, in registration order,
  those of the keys whose value in the board's own settings object differs (by \<^verbatim>\<open>!==\<close>)
  between the board before the call and the next board; the compiled values play no part.
  When the \<^verbatim>\<open>try\<close> block of \<^verbatim>\<open>forceRefresh\<close> completes, every registered listener is
  invoked.
\<close>

theorem settings_listeners:
  "(\<forall>m'. setState_try p h st shouldSave m = Inr m' \<longrightarrow>
      setState (Suc n) p h st shouldSave m = Some (Inr m') \<and>
      (\<exists>b. (case st of Value b \<Rightarrow> Inr b | Transform f \<Rightarrow> f (state m)) = Inr b \<and>
           notified m' = notified m @
             concat (map snd (filter (\<lambda>(k, fs). settings (board_data (state m)) k \<noteq>
                                                settings (board_data b) k)
                                     (settingsNotifiers m))))) \<and>
   (\<forall>m'. forceRefresh_try p h m = Inr m' \<longrightarrow>
      forceRefresh n p h m = Some (Inr m') \<and>
      notified m' = notified m @ concat (map snd (settingsNotifiers m)))"
  using setState_try_notified[of p h st shouldSave m] forceRefresh_try_notified[of p h m]
  by (simp add: forceRefresh_def)

theorem settings_listeners_witness:
  "(\<exists>m'. setState_try sampleParser sampleHost (Value searchOffBoard) False listeningManager =
            Inr m' \<and> notified m' = [8]) \<and>
   (\<exists>m'. forceRefresh_try sampleParser sampleHost listeningManager = Inr m' \<and>
          notified m' = [7, 8])"
proof -
  obtain m1 where t1:
    "setState_try sampleParser sampleHost (Value searchOffBoard) False listeningManager = Inr m1"
    by (simp add: setState_try_def Let_def sampleHost_def searchOffBoard_def listeningManager_def
        sampleManager_def emptyBoard_def)
  obtain m2 where t2: "forceRefresh_try sampleParser sampleHost listeningManager = Inr m2"
    by (simp add: forceRefresh_try_def Let_def sampleParser_def)
  have n0: "notified listeningManager = [] \<and>
            settingsNotifiers listeningManager = [(''date-format'', [7]), (''show-search'', [8])]"
    by (simp add: listeningManager_def sampleManager_def)
  have s0: "settings (board_data (state listeningManager)) = Map.empty \<and>
            settings (board_data searchOffBoard) = [''show-search'' \<mapsto> JBool False]"
    by (simp add: listeningManager_def sampleManager_def emptyBoard_def searchOffBoard_def)
  from settings_listeners[of sampleParser sampleHost "Value searchOffBoard" False listeningManager 0] t1 t2
  have "notified m1 = [8]" and "notified m2 = [7, 8]"
    by (simp_all add: n0 s0)
  then show ?thesis using t1 t2 by simp
qed

lemma getSettingRaw_compileSettings [simp]:
  "getSettingRaw k s (compileSettings h s' m) = getSettingRaw k s m"
  by (simp add: getSettingRaw_def getGlobalSetting_def split: option.splits)

lemma compiled_date_format:
  "compiledSettings (compileSettings h supplied m) ''date-format'' =
     Some (js_or (getSettingRaw ''date-format'' supplied m) (JStr (defaultDateFormat h)))"
  using compiled_table[of "''date-format''" "IfFalsy (JStr (defaultDateFormat h))" h m supplied]
  by (simp add: builtin_defaults_def Let_def getSettingRaw_resolved js_or_def)

lemma compiledManager_date: "compiledSettings compiledManager ''date-format'' = Some (JStr ''MM/DD'')"
  by (simp add: compiledManager_def compiled_date_format getSettingRaw_def getGlobalSetting_def
      supplied_get_def listeningManager_def sampleManager_def emptyBoard_def js_or_def)

text \<open>
  Claim C9 as stated fails in both directions. \<^verbatim>\<open>forceRefresh()\<close> on a manager whose
  settings are compiled invokes both listeners although the compiled date format is
  \<^verbatim>\<open>MM/DD\<close> before and after. After the global date format changed to \<^verbatim>\<open>YYYY\<close>, a
  \<^verbatim>\<open>setState\<close> with the current board compiles the date format to \<^verbatim>\<open>YYYY\<close> and invokes no
  listener.
\<close>

theorem settings_listeners_counterexample:
  "compiledSettings compiledManager ''date-format'' = Some (JStr ''MM/DD'') \<and>
   forceRefresh 0 sampleParser sampleHost compiledManager \<noteq> None \<and>
   \<not> isl (the (forceRefresh 0 sampleParser sampleHost compiledManager)) \<and>
   compiledSettings (projr (the (forceRefresh 0 sampleParser sampleHost compiledManager)))
     ''date-format'' = Some (JStr ''MM/DD'') \<and>
   notified (projr (the (forceRefresh 0 sampleParser sampleHost compiledManager))) = [7, 8] \<and>
   compiledSettings regionChangedManager ''date-format'' = Some (JStr ''MM/DD'') \<and>
   setState (Suc 0) sampleParser sampleHost (Value (state regionChangedManager)) False
     regionChangedManager \<noteq> None \<and>
   \<not> isl (the (setState (Suc 0) sampleParser sampleHost
       (Value (state regionChangedManager)) False regionChangedManager)) \<and>
   compiledSettings (projr (the (setState (Suc 0) sampleParser sampleHost
       (Value (state regionChangedManager)) False regionChangedManager))) ''date-format'' =
     Some (JStr ''YYYY'') \<and>
   notified (projr (the (setState (Suc 0) sampleParser sampleHost
       (Value (state regionChangedManager)) False regionChangedManager))) = []"
proof -
  let ?m1 = "compileSettings sampleHost None compiledManager"
  have d1: "compiledSettings ?m1 ''date-format'' = Some (JStr ''MM/DD'')"
    by (simp add: compiledManager_def compiled_date_format getSettingRaw_def getGlobalSetting_def
      supplied_get_def listeningManager_def sampleManager_def emptyBoard_def js_or_def)
  have n1: "notified compiledManager = [] \<and>
            settingsNotifiers compiledManager = [(''date-format'', [7]), (''show-search'', [8])]"
    by (simp add: compiledManager_def listeningManager_def sampleManager_def)
  let ?m2 = "compileSettings sampleHost None regionChangedManager"
  have d2: "compiledSettings ?m2 ''date-format'' = Some (JStr ''YYYY'')"
    by (simp add: regionChangedManager_def compiledManager_def compiled_date_format
      getSettingRaw_def getGlobalSetting_def
      supplied_get_def listeningManager_def sampleManager_def emptyBoard_def js_or_def)
  have d3: "compiledSettings regionChangedManager ''date-format'' = Some (JStr ''MM/DD'')"
    using compiledManager_date by (simp add: regionChangedManager_def)
  have n2: "notified regionChangedManager = []"
    by (simp add: regionChangedManager_def compiledManager_def listeningManager_def
        sampleManager_def)
  have fr: "\<exists>m'. forceRefresh 0 sampleParser sampleHost compiledManager = Some (Inr m') \<and>
              compiledSettings m' ''date-format'' = Some (JStr ''MM/DD'') \<and> notified m' = [7, 8]"
    by (simp add: forceRefresh_def forceRefresh_try_def Let_def sampleParser_def
        notifyAllSettings_def d1 n1)
  have st: "\<exists>m'. setState (Suc 0) sampleParser sampleHost (Value (state regionChangedManager))
                    False regionChangedManager = Some (Inr m') \<and>
              compiledSettings m' ''date-format'' = Some (JStr ''YYYY'') \<and> notified m' = []"
    by (simp add: setState_try_def Let_def notifySettings_def sampleHost_irreflexive d2 n2)
  show ?thesis
    using compiledManager_date d3 fr st by (auto simp del: setState.simps)
qed

section \<open>The priority field: set, read back, set again\<close>

lemma match_alt_None_iff:
  "match_alt alts s = None \<longleftrightarrow> (\<forall>a \<in> set alts. \<not> ci_prefix (priority_token a) s)"
  by (induction alts) auto

lemma clean_Nil [simp]: "clean alts []"
  by (simp add: clean_def match_alt_None_iff priority_token_def)

lemma clean_Cons: "clean alts (c # cs) \<longleftrightarrow> match_alt alts (c # cs) = None \<and> clean alts cs"
proof
  assume h: "clean alts (c # cs)"
  have "match_alt alts (drop 0 (c # cs)) = None" using h unfolding clean_def by blast
  moreover have "match_alt alts (drop i cs) = None" for i
    using h[unfolded clean_def, rule_format, of "Suc i"] by simp
  ultimately show "match_alt alts (c # cs) = None \<and> clean alts cs"
    by (simp add: clean_def)
next
  assume h: "match_alt alts (c # cs) = None \<and> clean alts cs"
  show "clean alts (c # cs)"
    unfolding clean_def
  proof
    fix i show "match_alt alts (drop i (c # cs)) = None"
      using h by (cases i) (simp_all add: clean_def)
  qed
qed

lemma count_tokens_zero_iff: "count_tokens alts s = 0 \<longleftrightarrow> clean alts s"
  by (induction alts s rule: count_tokens.induct) (auto simp add: clean_Cons split: option.splits)

lemma remove_tokens_clean: "clean alts s \<Longrightarrow> remove_tokens alts s = s"
  by (induction s) (auto simp add: clean_Cons)

lemma clean_drop: "clean alts s \<Longrightarrow> clean alts (drop k s)"
  by (simp add: clean_def)

lemma ci_prefix_take: "ci_prefix p (take k s) \<Longrightarrow> ci_prefix p s"
  by (induction p s arbitrary: k rule: ci_prefix.induct) (auto simp add: take_Cons' split: if_splits)

lemma clean_take: "clean alts s \<Longrightarrow> clean alts (take k s)"
  unfolding clean_def match_alt_None_iff
  by (metis ci_prefix_take drop_take)

lemma clean_subset: "set alts' \<subseteq> set alts \<Longrightarrow> clean alts s \<Longrightarrow> clean alts' s"
  unfolding clean_def match_alt_None_iff by blast


lemma trim_take_drop: "\<exists>k n. js_trim s = take k (drop n s)"
proof -
  let ?d = "dropWhile is_space s"
  have d: "?d = drop (length (takeWhile is_space s)) s"
    by (rule dropWhile_eq_drop)
  have "rev ?d = takeWhile is_space (rev ?d) @ dropWhile is_space (rev ?d)"
    by simp
  then have "?d = rev (dropWhile is_space (rev ?d)) @ rev (takeWhile is_space (rev ?d))"
    by (metis rev_append rev_rev_ident)
  then have "rev (dropWhile is_space (rev ?d)) =
               take (length (rev (dropWhile is_space (rev ?d)))) ?d"
    by (metis append_eq_conv_conj)
  then show ?thesis
    unfolding js_trim_def using d by metis
qed

lemma clean_trim: "clean alts s \<Longrightarrow> clean alts (js_trim s)"
  using trim_take_drop[of s] by (auto simp add: clean_take clean_drop)

lemma trim_ends:
  "js_trim s = [] \<or> (\<not> is_space (hd (js_trim s)) \<and> \<not> is_space (last (js_trim s)))"
proof (cases "js_trim s = []")
  case True then show ?thesis by simp
next
  case False
  let ?d = "dropWhile is_space s"
  let ?e = "dropWhile is_space (rev ?d)"
  have e: "?e \<noteq> []" using False by (simp add: js_trim_def)
  have d: "?d \<noteq> []"
  proof
    assume "?d = []"
    then have "?e = []" by (metis dropWhile.simps(1) rev.simps(1))
    with e show False by blast
  qed
  have l: "\<not> is_space (last (js_trim s))"
    using e hd_dropWhile[of is_space "rev ?d"] by (simp add: js_trim_def last_rev)
  have "hd (js_trim s) = last ?e"
    using e by (simp add: js_trim_def hd_rev)
  also have "last ?e = last (rev ?d)"
    using e by (metis last_appendR takeWhile_dropWhile_id)
  also have "\<dots> = hd ?d" using d by (simp add: last_rev)
  finally have "\<not> is_space (hd (js_trim s))"
    using d hd_dropWhile[of is_space s] by simp
  then show ?thesis using l by simp
qed

lemma trim_fixed:
  assumes "c = [] \<or> (\<not> is_space (hd c) \<and> \<not> is_space (last c))" and "is_space sp"
  shows "js_trim (c @ [sp]) = c"
proof (cases c)
  case Nil
  then show ?thesis using assms(2) by (simp add: js_trim_def)
next
  case (Cons x xs)
  then have h: "\<not> is_space x" and l: "\<not> is_space (last c)" using assms(1) by auto
  have "dropWhile is_space (c @ [sp]) = c @ [sp]" using Cons h by simp
  moreover have "dropWhile is_space (rev (c @ [sp])) = rev c"
  proof -
    have "rev c \<noteq> []" using Cons by simp
    moreover have "hd (rev c) = last c" using Cons by (simp add: hd_rev)
    ultimately obtain y ys where y: "rev c = y # ys" "y = last c"
      by (cases "rev c") auto
    have "dropWhile is_space (rev c) = rev c"
      unfolding y(1) using l y(2) by simp
    then show ?thesis using assms(2) by simp
  qed
  ultimately show ?thesis by (simp add: js_trim_def)
qed

lemma ci_prefix_before_space:
  assumes "ci_prefix p (x @ sp # r)" and "\<forall>q \<in> set p. canonicalize q \<noteq> canonicalize sp"
  shows "ci_prefix p x"
  using assms by (induction p x rule: ci_prefix.induct) auto

lemma match_alt_before_space:
  assumes "space_free alts" and "match_alt alts x = None"
  shows "match_alt alts (x @ CHR '' '' # r) = None"
  using assms unfolding match_alt_None_iff space_free_def
  by (meson ci_prefix_before_space)

lemma remove_tokens_before_space:
  "space_free alts \<Longrightarrow> clean alts c \<Longrightarrow>
   remove_tokens alts (c @ CHR '' '' # r) = c @ CHR '' '' # remove_tokens alts r"
proof (induction c)
  case Nil
  have "match_alt alts ([] @ CHR '' '' # r) = None"
    using Nil(1) by (intro match_alt_before_space) (simp_all add: match_alt_None_iff priority_token_def)
  then show ?case by simp
next
  case (Cons y ys)
  have "match_alt alts ((y # ys) @ CHR '' '' # r) = None"
    using Cons.prems by (intro match_alt_before_space) (simp_all add: clean_Cons)
  then show ?case using Cons by (simp add: clean_Cons)
qed

lemma count_tokens_before_space:
  "space_free alts \<Longrightarrow> clean alts c \<Longrightarrow>
   count_tokens alts (c @ CHR '' '' # r) = count_tokens alts r"
proof (induction c)
  case Nil
  have "match_alt alts ([] @ CHR '' '' # r) = None"
    using Nil(1) by (intro match_alt_before_space) (simp_all add: match_alt_None_iff priority_token_def)
  then show ?case by simp
next
  case (Cons y ys)
  have "match_alt alts ((y # ys) @ CHR '' '' # r) = None"
    using Cons.prems by (intro match_alt_before_space) (simp_all add: clean_Cons)
  then show ?case using Cons by (simp add: clean_Cons)
qed

lemma regex_search_before_space:
  "space_free alts \<Longrightarrow> clean alts c \<Longrightarrow>
   regex_search alts (c @ CHR '' '' # r) = regex_search alts r"
proof (induction c)
  case Nil
  have "match_alt alts ([] @ CHR '' '' # r) = None"
    using Nil(1) by (intro match_alt_before_space) (simp_all add: match_alt_None_iff priority_token_def)
  then show ?case by simp
next
  case (Cons y ys)
  have "match_alt alts ((y # ys) @ CHR '' '' # r) = None"
    using Cons.prems by (intro match_alt_before_space) (simp_all add: clean_Cons)
  then show ?case using Cons by (simp add: clean_Cons)
qed

lemma canon_simps:
  "canonicalize (CHR ''a'') = CHR ''A''"
  "canonicalize (CHR ''b'') = CHR ''B''"
  "canonicalize (CHR ''c'') = CHR ''C''"
  "canonicalize (CHR ''d'') = CHR ''D''"
  "canonicalize (CHR ''e'') = CHR ''E''"
  "canonicalize (CHR ''f'') = CHR ''F''"
  "canonicalize (CHR ''g'') = CHR ''G''"
  "canonicalize (CHR ''h'') = CHR ''H''"
  "canonicalize (CHR ''i'') = CHR ''I''"
  "canonicalize (CHR ''j'') = CHR ''J''"
  "canonicalize (CHR ''k'') = CHR ''K''"
  "canonicalize (CHR ''l'') = CHR ''L''"
  "canonicalize (CHR ''m'') = CHR ''M''"
  "canonicalize (CHR ''n'') = CHR ''N''"
  "canonicalize (CHR ''o'') = CHR ''O''"
  "canonicalize (CHR ''p'') = CHR ''P''"
  "canonicalize (CHR ''q'') = CHR ''Q''"
  "canonicalize (CHR ''r'') = CHR ''R''"
  "canonicalize (CHR ''s'') = CHR ''S''"
  "canonicalize (CHR ''t'') = CHR ''T''"
  "canonicalize (CHR ''u'') = CHR ''U''"
  "canonicalize (CHR ''v'') = CHR ''V''"
  "canonicalize (CHR ''w'') = CHR ''W''"
  "canonicalize (CHR ''x'') = CHR ''X''"
  "canonicalize (CHR ''y'') = CHR ''Y''"
  "canonicalize (CHR ''z'') = CHR ''Z''"
  "canonicalize (CHR ''A'') = CHR ''A''"
  "canonicalize (CHR ''B'') = CHR ''B''"
  "canonicalize (CHR ''C'') = CHR ''C''"
  "canonicalize (CHR ''D'') = CHR ''D''"
  "canonicalize (CHR ''E'') = CHR ''E''"
  "canonicalize (CHR ''F'') = CHR ''F''"
  "canonicalize (CHR ''G'') = CHR ''G''"
  "canonicalize (CHR ''H'') = CHR ''H''"
  "canonicalize (CHR ''I'') = CHR ''I''"
  "canonicalize (CHR ''J'') = CHR ''J''"
  "canonicalize (CHR ''K'') = CHR ''K''"
  "canonicalize (CHR ''L'') = CHR ''L''"
  "canonicalize (CHR ''M'') = CHR ''M''"
  "canonicalize (CHR ''N'') = CHR ''N''"
  "canonicalize (CHR ''O'') = CHR ''O''"
  "canonicalize (CHR ''P'') = CHR ''P''"
  "canonicalize (CHR ''Q'') = CHR ''Q''"
  "canonicalize (CHR ''R'') = CHR ''R''"
  "canonicalize (CHR ''S'') = CHR ''S''"
  "canonicalize (CHR ''T'') = CHR ''T''"
  "canonicalize (CHR ''U'') = CHR ''U''"
  "canonicalize (CHR ''V'') = CHR ''V''"
  "canonicalize (CHR ''W'') = CHR ''W''"
  "canonicalize (CHR ''X'') = CHR ''X''"
  "canonicalize (CHR ''Y'') = CHR ''Y''"
  "canonicalize (CHR ''Z'') = CHR ''Z''"
  "canonicalize (CHR ''['') = CHR ''[''"
  "canonicalize (CHR '']'') = CHR '']''"
  "canonicalize (CHR '':'') = CHR '':''"
  "canonicalize (CHR '' '') = CHR '' ''"
  by (simp_all add: canonicalize_def char_of_def bit_Suc_0_iff)

lemma lower_simps:
  "toLowerCase (CHR ''a'') = CHR ''a''"
  "toLowerCase (CHR ''b'') = CHR ''b''"
  "toLowerCase (CHR ''c'') = CHR ''c''"
  "toLowerCase (CHR ''d'') = CHR ''d''"
  "toLowerCase (CHR ''e'') = CHR ''e''"
  "toLowerCase (CHR ''f'') = CHR ''f''"
  "toLowerCase (CHR ''g'') = CHR ''g''"
  "toLowerCase (CHR ''h'') = CHR ''h''"
  "toLowerCase (CHR ''i'') = CHR ''i''"
  "toLowerCase (CHR ''j'') = CHR ''j''"
  "toLowerCase (CHR ''k'') = CHR ''k''"
  "toLowerCase (CHR ''l'') = CHR ''l''"
  "toLowerCase (CHR ''m'') = CHR ''m''"
  "toLowerCase (CHR ''n'') = CHR ''n''"
  "toLowerCase (CHR ''o'') = CHR ''o''"
  "toLowerCase (CHR ''p'') = CHR ''p''"
  "toLowerCase (CHR ''q'') = CHR ''q''"
  "toLowerCase (CHR ''r'') = CHR ''r''"
  "toLowerCase (CHR ''s'') = CHR ''s''"
  "toLowerCase (CHR ''t'') = CHR ''t''"
  "toLowerCase (CHR ''u'') = CHR ''u''"
  "toLowerCase (CHR ''v'') = CHR ''v''"
  "toLowerCase (CHR ''w'') = CHR ''w''"
  "toLowerCase (CHR ''x'') = CHR ''x''"
  "toLowerCase (CHR ''y'') = CHR ''y''"
  "toLowerCase (CHR ''z'') = CHR ''z''"
  "toLowerCase (CHR ''A'') = CHR ''a''"
  "toLowerCase (CHR ''B'') = CHR ''b''"
  "toLowerCase (CHR ''C'') = CHR ''c''"
  "toLowerCase (CHR ''D'') = CHR ''d''"
  "toLowerCase (CHR ''E'') = CHR ''e''"
  "toLowerCase (CHR ''F'') = CHR ''f''"
  "toLowerCase (CHR ''G'') = CHR ''g''"
  "toLowerCase (CHR ''H'') = CHR ''h''"
  "toLowerCase (CHR ''I'') = CHR ''i''"
  "toLowerCase (CHR ''J'') = CHR ''j''"
  "toLowerCase (CHR ''K'') = CHR ''k''"
  "toLowerCase (CHR ''L'') = CHR ''l''"
  "toLowerCase (CHR ''M'') = CHR ''m''"
  "toLowerCase (CHR ''N'') = CHR ''n''"
  "toLowerCase (CHR ''O'') = CHR ''o''"
  "toLowerCase (CHR ''P'') = CHR ''p''"
  "toLowerCase (CHR ''Q'') = CHR ''q''"
  "toLowerCase (CHR ''R'') = CHR ''r''"
  "toLowerCase (CHR ''S'') = CHR ''s''"
  "toLowerCase (CHR ''T'') = CHR ''t''"
  "toLowerCase (CHR ''U'') = CHR ''u''"
  "toLowerCase (CHR ''V'') = CHR ''v''"
  "toLowerCase (CHR ''W'') = CHR ''w''"
  "toLowerCase (CHR ''X'') = CHR ''x''"
  "toLowerCase (CHR ''Y'') = CHR ''y''"
  "toLowerCase (CHR ''Z'') = CHR ''z''"
  by (simp_all add: toLowerCase_def char_of_def bit_Suc_0_iff)

lemma space_simps:
  "is_space (CHR '' '')" "\<not> is_space (CHR '']'')" "\<not> is_space (CHR ''['')"
  "\<not> is_space (CHR ''k'')" "\<not> is_space (CHR ''B'')"
  by (simp_all add: is_space_def)

lemmas prio_eval = PRIORITY_ALTS_def priority_token_def canon_simps lower_simps space_simps
  updatePriorityInTitle_def getPriorityFromTitle_def menuPriorityTitle_def js_trim_def Let_def

lemma space_free_alts: "space_free PRIORITY_ALTS" "space_free [''high'', ''low'']"
  by (simp_all add: space_free_def prio_eval)

lemma high_token_facts:
  "remove_tokens PRIORITY_ALTS ''[priority::high]'' = []"
  "count_tokens PRIORITY_ALTS ''[priority::high]'' = 1"
  "regex_search [''high'', ''low''] ''[priority::high]'' = Some ''high''"
  "map toLowerCase ''high'' = ''high''"
  "is_space (CHR '' '')"
  by (simp_all add: prio_eval)

text \<open>
  Claim C7, as the code has it. Let \<open>t\<close> be a raw title from which one pass of removing
  the priority tokens leaves no priority token (so the tokens of \<open>t\<close> are not nested in
  one another). Then setting the priority to \<^verbatim>\<open>high\<close> and reading it back gives \<^verbatim>\<open>high\<close>; the
  new title holds exactly one priority token; setting \<^verbatim>\<open>high\<close> once more gives the same
  title, so one token remains after setting twice; and on a title without a \<^verbatim>\<open>high\<close> token the
  menu entry writes that same title.
\<close>

theorem priority_idempotent:
  assumes "count_tokens PRIORITY_ALTS (remove_tokens PRIORITY_ALTS t) = 0"
  shows "getPriorityFromTitle (updatePriorityInTitle t ''high'') = ''high'' \<and>
         count_tokens PRIORITY_ALTS (updatePriorityInTitle t ''high'') = 1 \<and>
         updatePriorityInTitle (updatePriorityInTitle t ''high'') ''high'' =
           updatePriorityInTitle t ''high'' \<and>
         (regex_search [''high''] t = None \<longrightarrow>
            menuPriorityTitle t = updatePriorityInTitle t ''high'')"
proof -
  define c where "c = js_trim (remove_tokens PRIORITY_ALTS t)"
  have u: "updatePriorityInTitle t ''high'' = c @ CHR '' '' # ''[priority::high]''"
    by (simp add: updatePriorityInTitle_def c_def)
  have cl: "clean PRIORITY_ALTS c"
    using assms by (simp add: c_def count_tokens_zero_iff clean_trim)
  have cl2: "clean [''high'', ''low''] c"
    using cl by (rule clean_subset[rotated]) (simp add: PRIORITY_ALTS_def)
  have ends: "c = [] \<or> (\<not> is_space (hd c) \<and> \<not> is_space (last c))"
    unfolding c_def by (rule trim_ends)
  have g: "getPriorityFromTitle (c @ CHR '' '' # ''[priority::high]'') = ''high''"
    by (simp only: getPriorityFromTitle_def regex_search_before_space[OF space_free_alts(2) cl2]
        high_token_facts option.case)
  have n: "count_tokens PRIORITY_ALTS (c @ CHR '' '' # ''[priority::high]'') = 1"
    by (simp only: count_tokens_before_space[OF space_free_alts(1) cl] high_token_facts)
  have r: "remove_tokens PRIORITY_ALTS (c @ CHR '' '' # ''[priority::high]'') = c @ [CHR '' '']"
    by (simp only: remove_tokens_before_space[OF space_free_alts(1) cl] high_token_facts)
  have i: "updatePriorityInTitle (c @ CHR '' '' # ''[priority::high]'') ''high'' =
             c @ CHR '' '' # ''[priority::high]''"
    using trim_fixed[OF ends high_token_facts(5)]
    by (simp add: updatePriorityInTitle_def r)
  have m: "regex_search [''high''] t = None \<longrightarrow>
            menuPriorityTitle t = updatePriorityInTitle t ''high''"
    by (simp add: menuPriorityTitle_def updatePriorityInTitle_def)
  show ?thesis using g n i m by (simp add: u)
qed

lemma sample_title_facts:
  "remove_tokens PRIORITY_ALTS ''Buy milk [Priority::LOW]  '' = ''Buy milk   ''"
  "count_tokens PRIORITY_ALTS ''Buy milk   '' = 0"
  "regex_search [''high''] ''Buy milk [Priority::LOW]  '' = None"
  "updatePriorityInTitle ''Buy milk [Priority::LOW]  '' ''high'' = ''Buy milk [priority::high]''"
  by (simp_all add: prio_eval)

theorem priority_idempotent_witness:
  "count_tokens PRIORITY_ALTS (remove_tokens PRIORITY_ALTS ''Buy milk [Priority::LOW]  '') = 0 \<and>
   regex_search [''high''] ''Buy milk [Priority::LOW]  '' = None \<and>
   updatePriorityInTitle ''Buy milk [Priority::LOW]  '' ''high'' = ''Buy milk [priority::high]'' \<and>
   getPriorityFromTitle ''Buy milk [priority::high]'' = ''high'' \<and>
   count_tokens PRIORITY_ALTS ''Buy milk [priority::high]'' = 1 \<and>
   updatePriorityInTitle ''Buy milk [priority::high]'' ''high'' = ''Buy milk [priority::high]'' \<and>
   menuPriorityTitle ''Buy milk [Priority::LOW]  '' = ''Buy milk [priority::high]''"
proof -
  have h: "count_tokens PRIORITY_ALTS
             (remove_tokens PRIORITY_ALTS ''Buy milk [Priority::LOW]  '') = 0"
    by (simp only: sample_title_facts)
  from priority_idempotent [OF h]
  show ?thesis using h by (simp only: sample_title_facts)
qed

text \<open>
  Claim C7 as stated fails on nested tokens, because the removal is one pass over the
  title: from \<^verbatim>\<open>[pri[priority::low]ority::low] task\<close> the pass leaves \<^verbatim>\<open>[priority::low] task\<close>,
  so after setting \<^verbatim>\<open>high\<close> the priority read back is \<^verbatim>\<open>low\<close>; and with one more level of
  nesting two tokens remain after setting \<^verbatim>\<open>high\<close> twice.
\<close>

lemma nested_title_facts:
  "updatePriorityInTitle ''[pri[priority::low]ority::low] task'' ''high'' =
     ''[priority::low] task [priority::high]''"
  "getPriorityFromTitle ''[priority::low] task [priority::high]'' = ''low''"
  "updatePriorityInTitle ''[pri[pri[priority::low]ority::low]ority::low]'' ''high'' =
     ''[pri[priority::low]ority::low] [priority::high]''"
  "updatePriorityInTitle ''[pri[priority::low]ority::low] [priority::high]'' ''high'' =
     ''[priority::low] [priority::high]''"
  "count_tokens PRIORITY_ALTS ''[priority::low] [priority::high]'' = 2"
  by (simp_all add: prio_eval)

theorem priority_nested_counterexample:
  "getPriorityFromTitle (updatePriorityInTitle ''[pri[priority::low]ority::low] task'' ''high'') =
     ''low'' \<and>
   count_tokens PRIORITY_ALTS
     (updatePriorityInTitle
        (updatePriorityInTitle ''[pri[pri[priority::low]ority::low]ority::low]'' ''high'')
        ''high'') = 2"
  by (simp only: nested_title_facts)

end
